theory Spec2Isabelle
  imports Complex_Main "HOL-Library.Word" "HOL-Library.Sublist" "HOL-Library.Multiset"
    "HOL-Library.Log_Nat"
begin

unbundle bit_operations_syntax

section \<open>Conventions of the embedding\<close>

text \<open>
  The repository is a set of Express routers, one per chain. Each route handler is
  embedded as a function from its environment (the libraries and providers it calls,
  given as a record of functions) and its request to the pair of the HTTP reply and the
  list of effects performed, in the order of the source: provider calls, key derivation
  and signing. A handler that returns early returns the effects performed so far.

  \<^item> A reply is \<open>Ok\<close> (status 200 with its payload), \<open>BadRequest\<close> (an explicit
    \<^verbatim>\<open>res.status(400).json({ error })\<close>) or \<open>ServerError\<close> (an exception caught
    by the route's \<^verbatim>\<open>catch\<close>, status 500).
  \<^item> A library or provider call that can throw is an \<open>option\<close>-valued function of the
    environment; \<open>None\<close> is the throw.
  \<^item> String fields of a request are strings; an absent field is the empty string (both
    are falsy for \<^verbatim>\<open>!x\<close>). A numeric field is \<open>real option\<close>: the JSON number, or
    \<open>None\<close> when the field is absent.
  \<^item> Amounts in base units (satoshi, lamports, lovelace, wei) are integers. JavaScript
    numbers are IEEE-754 doubles: additions and comparisons of base-unit integers are
    exact (they stay below \<open>2^53\<close>), and they are embedded as \<open>int\<close>. The product of a
    decimal amount or a fee rate with a constant is rounded by the runtime; that
    double-precision multiplication is a parameter (\<open>btc_mul\<close>, \<open>sol_mul\<close>,
    \<open>ada_mul\<close> of the environments) and is never assumed to be exact unless a
    theorem says so. The multiplication of the language itself is \<open>fmul\<close>, defined
    below; the theorems on the conversion of amounts take the parameter to be \<open>fmul\<close>.
\<close>

datatype error =
    MissingFields
  | SignerMismatch
  | NoUtxos
  | InsufficientFunds
  | InvalidAddress
  | PrivateKeyRequired
  | InsufficientBalance
  | BalanceTooLowForGas
  | AmountPlusGasExceedsBalance
  | MinimumAda
  | WordsNot12Or24

datatype exn =
    LibraryError
  | ProviderError
  | InvalidMnemonic
  | PrivateKeyMissing
  | UnsupportedKeyFormat
  | UnsupportedChain
  | TypeError

datatype 'a reply = Ok 'a | BadRequest error | ServerError exn

text \<open>
  The messages of the source behind the constructors: \<open>SignerMismatch\<close> is
  \<^verbatim>\<open>'privateKey mismatch'\<close>, \<open>InsufficientFunds\<close> is \<^verbatim>\<open>'insufficient funds'\<close>,
  \<open>InsufficientBalance\<close> is \<^verbatim>\<open>'insufficient balance'\<close>, \<open>BalanceTooLowForGas\<close> is
  \<^verbatim>\<open>'balance too low for gas'\<close>, \<open>AmountPlusGasExceedsBalance\<close> is
  \<^verbatim>\<open>'amount + gas exceeds balance'\<close>, \<open>MinimumAda\<close> is \<^verbatim>\<open>'Minimum 1 ADA required'\<close>,
  \<open>WordsNot12Or24\<close> is \<^verbatim>\<open>'words must be 12 or 24'\<close>,
  \<open>UnsupportedKeyFormat\<close> is \<^verbatim>\<open>'Unsupported privateKey format'\<close> and
  \<open>PrivateKeyMissing\<close> is the \<^verbatim>\<open>'privateKey required'\<close> thrown by the key codec;
  \<open>UnsupportedChain\<close> is the \<^verbatim>\<open>Unsupported chain\<close> thrown by \<^verbatim>\<open>getProvider\<close>,
  \<open>InvalidMnemonic\<close> the \<^verbatim>\<open>Invalid mnemonic\<close> thrown by the derivations, \<open>TypeError\<close>
  a \<^verbatim>\<open>TypeError\<close> of the language, \<open>LibraryError\<close> and \<open>ProviderError\<close> whatever a
  library or a provider call throws.
  The specification's \<open>FundsError\<close> groups the replies below.
\<close>

fun is_funds_error :: "'a reply \<Rightarrow> bool" where
  "is_funds_error (BadRequest InsufficientFunds) = True"
| "is_funds_error (BadRequest InsufficientBalance) = True"
| "is_funds_error (BadRequest BalanceTooLowForGas) = True"
| "is_funds_error (BadRequest AmountPlusGasExceedsBalance) = True"
| "is_funds_error (BadRequest NoUtxos) = True"
| "is_funds_error _ = False"

section \<open>Numbers of the runtime\<close>

text \<open>
  A number of the language is an IEEE-754 binary64 value. \<open>binary64 x\<close> is the double
  nearest to the real \<open>x\<close>, a tie going to the even significand: \<open>x\<close> is divided by
  the power of two that makes its significand an integer of 53 bits (of fewer bits below
  \<open>2^-1022\<close>, where the doubles are subnormal and the spacing stays \<open>2^-1074\<close>),
  rounded, and multiplied back. \<open>ilog2 x\<close> is the exponent of a positive \<open>x\<close>, the
  \<open>k\<close> with \<open>2^k \<le> x < 2^(k+1)\<close>, computed from the bit length of \<open>\<lfloor>x\<rfloor>\<close> or of
  \<open>\<lceil>1/x\<rceil> - 1\<close>. A result of magnitude \<open>2^1024\<close> or more, which the runtime gives
  as \<^verbatim>\<open>Infinity\<close>, is outside the embedding. \<open>fmul\<close> is the operator \<^verbatim>\<open>*\<close> on two
  numbers: the exact product, rounded once.
\<close>

definition ilog2 :: "real \<Rightarrow> int" where
  "ilog2 x = (if 1 \<le> x then bitlen \<lfloor>x\<rfloor> - 1 else - bitlen (\<lceil>1 / x\<rceil> - 1))"

definition round_half_even :: "real \<Rightarrow> int" where
  "round_half_even x =
     (let n = \<lfloor>x\<rfloor>; r = x - of_int n
      in if r < 1 / 2 then n else if 1 / 2 < r then n + 1 else if even n then n else n + 1)"

definition binary64 :: "real \<Rightarrow> real" where
  "binary64 x =
     (if x = 0 then 0
      else let e = max (ilog2 \<bar>x\<bar> - 52) (- 1074)
           in of_int (round_half_even (x / 2 powi e)) * 2 powi e)"

definition fmul :: "real \<Rightarrow> real \<Rightarrow> real" where
  "fmul x y = binary64 (x * y)"

section \<open>UTXO chain (btc-server.mjs)\<close>

subsection \<open>Constants and helpers\<close>

definition VBYTE_PER_INPUT :: nat where "VBYTE_PER_INPUT = 68"
definition VBYTE_PER_OUTPUT :: nat where "VBYTE_PER_OUTPUT = 31"
definition TX_OVERHEAD_VBYTES :: nat where "TX_OVERHEAD_VBYTES = 10"

text \<open>\<^verbatim>\<open>btcToSats = (btc) => Math.floor(Number(btc) * 1e8)\<close>\<close>

definition btcToSats :: "(real \<Rightarrow> real \<Rightarrow> real) \<Rightarrow> real \<Rightarrow> int" where
  "btcToSats mul btc = \<lfloor>mul btc 100000000\<rfloor>"

definition estimateTxVsize :: "nat \<Rightarrow> nat \<Rightarrow> nat" where
  "estimateTxVsize ins outs =
     ins * VBYTE_PER_INPUT + outs * VBYTE_PER_OUTPUT + TX_OVERHEAD_VBYTES"

text \<open>
  The fee of the send route, \<^verbatim>\<open>Math.ceil(estimateTxVsize(chosen.length, 2) * rate)\<close>,
  with the number of outputs as an argument.
\<close>

definition txFee :: "(real \<Rightarrow> real \<Rightarrow> real) \<Rightarrow> nat \<Rightarrow> nat \<Rightarrow> real \<Rightarrow> int" where
  "txFee mul ins outs rate = \<lceil>mul (real (estimateTxVsize ins outs)) rate\<rceil>"

text \<open>
  An unspent output as the provider returns it. Its field \<^verbatim>\<open>value\<close> is a number of
  satoshi.
\<close>

record utxo =
  txid :: string
  vout :: nat
  value' :: nat

text \<open>
  \<^verbatim>\<open>selectUtxosGreedy\<close>: the \<^verbatim>\<open>for\<close> loop over the sorted copy, with \<^verbatim>\<open>chosen\<close> and
  \<^verbatim>\<open>sum\<close> as accumulators. The comparison with the target comes after the output has
  been pushed and added. \<^verbatim>\<open>Array.prototype.sort\<close> is stable, as \<open>sort_key\<close> is.
\<close>

fun greedy_loop :: "utxo list \<Rightarrow> int \<Rightarrow> utxo list \<Rightarrow> int \<Rightarrow> utxo list \<times> int" where
  "greedy_loop [] target chosen running = (chosen, running)"
| "greedy_loop (u # us) target chosen running =
     (let chosen' = chosen @ [u]; running' = running + int (value' u)
      in if running' \<ge> target then (chosen', running')
         else greedy_loop us target chosen' running')"

definition selectUtxosGreedy :: "utxo list \<Rightarrow> int \<Rightarrow> utxo list \<times> int" where
  "selectUtxosGreedy utxos target = greedy_loop (sort_key value' utxos) target [] 0"

definition total_value :: "utxo list \<Rightarrow> int" where
  "total_value us = (\<Sum>u\<leftarrow>us. int (value' u))"

text \<open>
  \<^verbatim>\<open>fetchFeeRate\<close>: \<^verbatim>\<open>Math.max(Math.round(r.data['1'] || 10), 1)\<close>, and 10 when the
  request throws. The argument is the provider's answer: \<open>None\<close> when the request
  fails, \<open>Some None\<close> when the reply has no entry \<^verbatim>\<open>'1'\<close>. \<^verbatim>\<open>Math.round\<close> rounds a
  half up, as \<open>round\<close> does.
\<close>

definition fetchFeeRate :: "real option option \<Rightarrow> real" where
  "fetchFeeRate answer =
     (case answer of
        None \<Rightarrow> 10
      | Some e \<Rightarrow>
          real_of_int (max (round (case e of None \<Rightarrow> 10 | Some x \<Rightarrow> if x = 0 then 10 else x)) 1))"

subsection \<open>The send route\<close>

text \<open>
  The transaction handed to the PSBT library: the inputs in the order they are added,
  and the outputs as pairs of address and satoshi.
\<close>

record psbt =
  inputs :: "utxo list"
  outputs :: "(string \<times> int) list"

record btc_env =
  btc_mul :: "real \<Rightarrow> real \<Rightarrow> real"
  wif_address :: "string \<Rightarrow> string option"
  get_utxos :: "string \<Rightarrow> utxo list option"
  get_fee_estimates :: "real option option"
  sign_psbt :: "psbt \<Rightarrow> string \<Rightarrow> string option"
  post_tx :: "string \<Rightarrow> string option"

text \<open>
  \<open>wif_address\<close> is \<^verbatim>\<open>ECPair.fromWIF\<close> followed by \<^verbatim>\<open>payments.p2wpkh(...).address\<close>;
  \<open>get_utxos\<close> is the answer to \<^verbatim>\<open>GET /address/:a/utxo\<close>; \<open>sign_psbt\<close> stands for
  \<^verbatim>\<open>addInput\<close>, \<^verbatim>\<open>addOutput\<close>, \<^verbatim>\<open>signInput\<close>, \<^verbatim>\<open>finalizeAllInputs\<close> and
  \<^verbatim>\<open>extractTransaction().toHex()\<close>; \<open>post_tx\<close> is the answer to \<^verbatim>\<open>POST /tx\<close>.
  The module reaches the key pair class as \<^verbatim>\<open>bitcoin.ECPair\<close>. The releases of
  bitcoinjs-lib that export \<^verbatim>\<open>initEccLib\<close>, which the module calls when it loads,
  export no \<^verbatim>\<open>ECPair\<close>: with them the call throws for every key, which is
  \<open>wif_address\<close> = \<open>\<lambda>w. None\<close>, and the route answers 500 before any lookup. What is
  proved of the later steps of the route holds for every \<open>wif_address\<close> and says what
  the code does once the key pair is obtained.
\<close>

record btc_send_body =
  btc_privateKeyWIF :: string
  btc_to :: string
  btc_amount :: "real option"
  btc_feeRate :: "real option"

record btc_sent =
  sent_from :: string
  sent_to :: string
  amount_btc :: real
  amount_sats :: int
  fee_sats :: int
  sent_txid :: string

datatype btc_event =
    FetchUtxos string
  | FetchFeeRate
  | SignPsbt psbt string
  | BroadcastTx string

text \<open>
  \<^verbatim>\<open>const rate = feeRate || await fetchFeeRate()\<close>: the rate, and the provider call
  made when the body gives none (or gives 0, which is falsy).
\<close>

definition btc_rate :: "btc_env \<Rightarrow> btc_send_body \<Rightarrow> real \<times> btc_event list" where
  "btc_rate env b =
     (case btc_feeRate b of
        None \<Rightarrow> (fetchFeeRate (get_fee_estimates env), [FetchFeeRate])
      | Some r \<Rightarrow>
          if r = 0 then (fetchFeeRate (get_fee_estimates env), [FetchFeeRate]) else (r, []))"

text \<open>
  The second half of the route, from \<^verbatim>\<open>const rate = feeRate || await fetchFeeRate()\<close>
  on: the fee rate, the selection, the fee, the funds check, the two outputs, signing
  and broadcast.
\<close>

definition btc_fund_and_sign ::
  "btc_env \<Rightarrow> string \<Rightarrow> btc_send_body \<Rightarrow> real \<Rightarrow> utxo list \<Rightarrow> btc_sent reply \<times> btc_event list" where
  "btc_fund_and_sign env fromAddress b amount utxos =
     (let (rate, rate_events) = btc_rate env b;
          amountSats = btcToSats (btc_mul env) amount;
          (chosen, total_in) = selectUtxosGreedy utxos (amountSats + 1000);
          fee = txFee (btc_mul env) (length chosen) 2 rate;
          events = FetchUtxos fromAddress # rate_events
      in if total_in < amountSats + fee then (BadRequest InsufficientFunds, events)
         else
           let draft = \<lparr>inputs = chosen,
                         outputs = [(btc_to b, amountSats),
                                    (fromAddress, total_in - amountSats - fee)]\<rparr>
           in case sign_psbt env draft (btc_privateKeyWIF b) of
                None \<Rightarrow> (ServerError LibraryError,
                          events @ [SignPsbt draft (btc_privateKeyWIF b)])
              | Some hex \<Rightarrow>
                  (case post_tx env hex of
                     None \<Rightarrow> (ServerError ProviderError,
                               events @ [SignPsbt draft (btc_privateKeyWIF b), BroadcastTx hex])
                   | Some tx \<Rightarrow>
                       (Ok \<lparr>sent_from = fromAddress, sent_to = btc_to b, amount_btc = amount,
                            amount_sats = amountSats, fee_sats = fee, sent_txid = tx\<rparr>,
                        events @ [SignPsbt draft (btc_privateKeyWIF b), BroadcastTx hex])))"

text \<open>
  \<^verbatim>\<open>POST /:from/send\<close>. The first three checks are the field check, the derivation of
  the key's address and the comparison with the \<^verbatim>\<open>:from\<close> of the path.
\<close>

definition btc_send :: "btc_env \<Rightarrow> string \<Rightarrow> btc_send_body \<Rightarrow> btc_sent reply \<times> btc_event list" where
  "btc_send env from b =
     (case btc_amount b of
        None \<Rightarrow> (BadRequest MissingFields, [])
      | Some amount \<Rightarrow>
          if btc_privateKeyWIF b = [] \<or> btc_to b = [] \<or> amount = 0
          then (BadRequest MissingFields, [])
          else
            (case wif_address env (btc_privateKeyWIF b) of
               None \<Rightarrow> (ServerError LibraryError, [])
             | Some fromAddress \<Rightarrow>
                 if fromAddress \<noteq> from then (BadRequest SignerMismatch, [])
                 else
                   (case get_utxos env fromAddress of
                      None \<Rightarrow> (ServerError ProviderError, [FetchUtxos fromAddress])
                    | Some utxos \<Rightarrow>
                        if utxos = [] then (BadRequest NoUtxos, [FetchUtxos fromAddress])
                        else btc_fund_and_sign env fromAddress b amount utxos)))"

text \<open>
  The values the route computes on its way, named after its constants
  \<^verbatim>\<open>{ chosen, sum }\<close>, \<^verbatim>\<open>fee\<close> and the value of the second output.
\<close>

definition btc_selection :: "btc_env \<Rightarrow> real \<Rightarrow> utxo list \<Rightarrow> utxo list \<times> int" where
  "btc_selection env amount utxos =
     selectUtxosGreedy utxos (btcToSats (btc_mul env) amount + 1000)"

definition btc_fee :: "btc_env \<Rightarrow> btc_send_body \<Rightarrow> real \<Rightarrow> utxo list \<Rightarrow> int" where
  "btc_fee env b amount utxos =
     txFee (btc_mul env) (length (fst (btc_selection env amount utxos))) 2 (fst (btc_rate env b))"

definition btc_change :: "btc_env \<Rightarrow> btc_send_body \<Rightarrow> real \<Rightarrow> utxo list \<Rightarrow> int" where
  "btc_change env b amount utxos =
     snd (btc_selection env amount utxos) - btcToSats (btc_mul env) amount
       - btc_fee env b amount utxos"

definition btc_draft :: "btc_env \<Rightarrow> string \<Rightarrow> btc_send_body \<Rightarrow> real \<Rightarrow> utxo list \<Rightarrow> psbt" where
  "btc_draft env fromAddress b amount utxos =
     \<lparr>inputs = fst (btc_selection env amount utxos),
      outputs = [(btc_to b, btcToSats (btc_mul env) amount),
                 (fromAddress, btc_change env b amount utxos)]\<rparr>"

section \<open>UTXO chain through a remote signing service (the Tatum router)\<close>

text \<open>
  The second Bitcoin router keeps the helpers of the first
  (\<^verbatim>\<open>estimateTxVsize\<close>, \<^verbatim>\<open>selectUtxosGreedy\<close>, both identical) but its send route
  posts the declared sender address and the private key to the provider's
  \<^verbatim>\<open>/bitcoin/transaction\<close> endpoint, which builds, signs and broadcasts.
\<close>

record tatum_payload =
  pay_address :: string
  pay_privateKey :: string
  pay_to :: string
  pay_value :: real

record tatum_env =
  post_transaction :: "tatum_payload \<Rightarrow> string option"

record tatum_send_body =
  tatum_to :: string
  tatum_amount :: "real option"
  tatum_privateKey :: string

record tatum_sent =
  tatum_sent_from :: string
  tatum_sent_to :: string
  tatum_sent_amount :: real
  tatum_txId :: string

datatype tatum_event = PostTransaction tatum_payload

definition tatum_send ::
  "tatum_env \<Rightarrow> string \<Rightarrow> tatum_send_body \<Rightarrow> tatum_sent reply \<times> tatum_event list" where
  "tatum_send env from b =
     (case tatum_amount b of
        None \<Rightarrow> (BadRequest MissingFields, [])
      | Some amount \<Rightarrow>
          if from = [] \<or> tatum_to b = [] \<or> amount = 0 \<or> tatum_privateKey b = []
          then (BadRequest MissingFields, [])
          else
            let payload = \<lparr>pay_address = from, pay_privateKey = tatum_privateKey b,
                            pay_to = tatum_to b, pay_value = amount\<rparr>
            in (case post_transaction env payload of
                  None \<Rightarrow> (ServerError ProviderError, [PostTransaction payload])
                | Some tx \<Rightarrow>
                    (Ok \<lparr>tatum_sent_from = from, tatum_sent_to = tatum_to b,
                         tatum_sent_amount = amount, tatum_txId = tx\<rparr>,
                     [PostTransaction payload])))"

section \<open>Request values\<close>

text \<open>
  A field of a JSON body whose type the handler does not fix. \<open>JNull\<close> stands for
  \<^verbatim>\<open>undefined\<close> and \<^verbatim>\<open>null\<close> (the nullish values). \<open>falsy\<close> is \<^verbatim>\<open>!v\<close>.
\<close>

datatype json =
    JNull
  | JBool bool
  | JNum real
  | JStr string
  | JArr "json list"
  | JObj "(string \<times> json) list"

fun falsy :: "json \<Rightarrow> bool" where
  "falsy JNull = True"
| "falsy (JBool b) = (\<not> b)"
| "falsy (JNum r) = (r = 0)"
| "falsy (JStr s) = (s = [])"
| "falsy (JArr xs) = False"
| "falsy (JObj kvs) = False"

section \<open>Account chain (the EVM router)\<close>

definition CHAINS :: "string list" where
  "CHAINS = [''sonic'', ''ethereum'', ''base'', ''polygon'']"

record fee_data =
  gasPrice :: "int option"
  maxFeePerGas :: "int option"
  maxPriorityFeePerGas :: "int option"

record evm_tx =
  tx_to :: string
  tx_value :: int
  tx_gasLimit :: int
  tx_maxFeePerGas :: "int option"
  tx_maxPriorityFeePerGas :: "int option"

text \<open>
  \<open>wallet_address\<close> is \<^verbatim>\<open>new Wallet(pk, provider).address\<close> (\<open>None\<close>: the key is
  refused); \<open>is_address\<close> is ethers' \<^verbatim>\<open>isAddress\<close>; \<open>get_balance\<close>, \<open>get_fee_data\<close>
  and \<open>estimate_gas\<close> are the provider's answers on the given chain, in wei, as
  \<^verbatim>\<open>BigInt\<close>s; \<open>parse_amount\<close> is \<^verbatim>\<open>parseEther(Number(amount).toFixed(18))\<close>;
  \<open>send_transaction\<close> is \<^verbatim>\<open>wallet.sendTransaction\<close>, which signs with the wallet's key
  and submits.
\<close>

record evm_env =
  is_address :: "string \<Rightarrow> bool"
  wallet_address :: "string \<Rightarrow> string option"
  get_balance :: "string \<Rightarrow> string \<Rightarrow> int option"
  get_fee_data :: "string \<Rightarrow> fee_data option"
  estimate_gas :: "string \<Rightarrow> string \<Rightarrow> string \<Rightarrow> int option"
  parse_amount :: "json \<Rightarrow> int option"
  send_transaction :: "string \<Rightarrow> string \<Rightarrow> evm_tx \<Rightarrow> string option"

record evm_send_body =
  evm_to :: string
  evm_amount :: json
  evm_privateKey :: string
  evm_chain :: "string option"
  evm_gasLimit :: json

record evm_sent =
  evm_sent_chain :: string
  evm_sent_from :: string
  evm_sent_to :: string
  sentAmount :: int
  gasUsed :: int
  gasCost :: int
  txHash :: string

datatype evm_event =
    GetBalance string
  | GetFeeData
  | EstimateGas string string
  | SignAndSend evm_tx

text \<open>\<^verbatim>\<open>String.prototype.toLowerCase\<close> on the ASCII letters an address is written in.\<close>

definition lower_char :: "char \<Rightarrow> char" where
  "lower_char c =
     (case map_of (zip ''ABCDEFGHIJKLMNOPQRSTUVWXYZ'' ''abcdefghijklmnopqrstuvwxyz'') c of
        None \<Rightarrow> c
      | Some l \<Rightarrow> l)"

definition toLowerCase :: "string \<Rightarrow> string" where
  "toLowerCase s = map lower_char s"

text \<open>
  \<^verbatim>\<open>getProvider\<close> throws on a chain that is not a key of \<^verbatim>\<open>CHAINS\<close>;
  \<^verbatim>\<open>loadWalletFromPrivateKey\<close> builds the wallet on that provider. The result is the
  wallet's address.
\<close>

definition loadWalletFromPrivateKey :: "evm_env \<Rightarrow> string \<Rightarrow> string \<Rightarrow> exn + string" where
  "loadWalletFromPrivateKey env pk chain =
     (if chain \<notin> set CHAINS then Inl UnsupportedChain
      else case wallet_address env pk of None \<Rightarrow> Inl LibraryError | Some a \<Rightarrow> Inr a)"

definition chain_of :: "evm_send_body \<Rightarrow> string" where
  "chain_of b = (case evm_chain b of None \<Rightarrow> ''ethereum'' | Some c \<Rightarrow> c)"

text \<open>The sentinel of the amount logic: \<^verbatim>\<open>!amount || amount === 'max'\<close>.\<close>

definition is_max :: "json \<Rightarrow> bool" where
  "is_max amount = (falsy amount \<or> amount = JStr ''max'')"

text \<open>
  The amount logic and the final transaction, once \<^verbatim>\<open>estimatedGas\<close> and \<^verbatim>\<open>gasCost\<close>
  are \<^verbatim>\<open>BigInt\<close>s.
\<close>

definition evm_amount_and_send ::
  "evm_env \<Rightarrow> string \<Rightarrow> evm_send_body \<Rightarrow> int \<Rightarrow> fee_data \<Rightarrow> int \<Rightarrow> int \<Rightarrow> evm_event list
     \<Rightarrow> evm_sent reply \<times> evm_event list" where
  "evm_amount_and_send env from b balanceWei feeData estimatedGas cost events =
     (let final = (\<lambda>valueWei.
            let tx = \<lparr>tx_to = evm_to b, tx_value = valueWei, tx_gasLimit = estimatedGas,
                       tx_maxFeePerGas = maxFeePerGas feeData,
                       tx_maxPriorityFeePerGas = maxPriorityFeePerGas feeData\<rparr>
            in (case send_transaction env (evm_privateKey b) (chain_of b) tx of
                  None \<Rightarrow> (ServerError ProviderError, events @ [SignAndSend tx])
                | Some h \<Rightarrow>
                    (Ok \<lparr>evm_sent_chain = chain_of b, evm_sent_from = from,
                         evm_sent_to = evm_to b, sentAmount = valueWei,
                         gasUsed = estimatedGas, gasCost = cost, txHash = h\<rparr>,
                     events @ [SignAndSend tx])))
      in if is_max (evm_amount b) then
           (if balanceWei \<le> cost then (BadRequest BalanceTooLowForGas, events)
            else final (balanceWei - cost))
         else
           (case parse_amount env (evm_amount b) of
              None \<Rightarrow> (ServerError LibraryError, events)
            | Some valueWei \<Rightarrow>
                if valueWei + cost > balanceWei
                then (BadRequest AmountPlusGasExceedsBalance, events)
                else final valueWei))"

text \<open>
  From \<^verbatim>\<open>const feeData = await provider.getFeeData()\<close> to the gas cost. A
  \<^verbatim>\<open>gasLimit\<close> of the body is a JSON value, never a \<^verbatim>\<open>BigInt\<close>: multiplying it with a
  \<^verbatim>\<open>BigInt\<close> price, or subtracting the resulting number from the \<^verbatim>\<open>BigInt\<close> balance,
  throws a \<^verbatim>\<open>TypeError\<close>; so does the product of the estimate with a \<^verbatim>\<open>null\<close> price.
\<close>

definition evm_gas_and_send ::
  "evm_env \<Rightarrow> string \<Rightarrow> evm_send_body \<Rightarrow> int \<Rightarrow> fee_data \<Rightarrow> evm_sent reply \<times> evm_event list" where
  "evm_gas_and_send env from b balanceWei feeData =
     (let price = (case maxFeePerGas feeData of Some p \<Rightarrow> Some p | None \<Rightarrow> gasPrice feeData);
          events = [GetBalance from, GetFeeData]
      in if evm_gasLimit b \<noteq> JNull then
           (case price of
              Some p \<Rightarrow> (ServerError TypeError, events)
            | None \<Rightarrow>
                if is_max (evm_amount b) then (ServerError TypeError, events)
                else (case parse_amount env (evm_amount b) of
                        None \<Rightarrow> (ServerError LibraryError, events)
                      | Some v \<Rightarrow> (ServerError TypeError, events)))
         else
           (case estimate_gas env (chain_of b) from (evm_to b) of
              None \<Rightarrow> (ServerError ProviderError, events @ [EstimateGas from (evm_to b)])
            | Some estimatedGas \<Rightarrow>
                (case price of
                   None \<Rightarrow> (ServerError TypeError, events @ [EstimateGas from (evm_to b)])
                 | Some p \<Rightarrow>
                     evm_amount_and_send env from b balanceWei feeData estimatedGas
                       (estimatedGas * p) (events @ [EstimateGas from (evm_to b)]))))"

text \<open>\<^verbatim>\<open>POST /wallet/:from/send\<close>.\<close>

definition evm_send :: "evm_env \<Rightarrow> string \<Rightarrow> evm_send_body \<Rightarrow> evm_sent reply \<times> evm_event list" where
  "evm_send env from b =
     (if \<not> is_address env from \<or> \<not> is_address env (evm_to b) then (BadRequest InvalidAddress, [])
      else if evm_privateKey b = [] then (BadRequest PrivateKeyRequired, [])
      else
        (case loadWalletFromPrivateKey env (evm_privateKey b) (chain_of b) of
           Inl e \<Rightarrow> (ServerError e, [])
         | Inr address \<Rightarrow>
             if toLowerCase address \<noteq> toLowerCase from then (BadRequest SignerMismatch, [])
             else
               (case get_balance env (chain_of b) from of
                  None \<Rightarrow> (ServerError ProviderError, [GetBalance from])
                | Some balanceWei \<Rightarrow>
                    if balanceWei \<le> 0 then (BadRequest InsufficientBalance, [GetBalance from])
                    else
                      (case get_fee_data env (chain_of b) of
                         None \<Rightarrow> (ServerError ProviderError, [GetBalance from, GetFeeData])
                       | Some feeData \<Rightarrow> evm_gas_and_send env from b balanceWei feeData))))"

section \<open>Single-signer chain (solana_server.mjs)\<close>

type_synonym byte = "8 word"

record keypair =
  publicKey :: "byte list"
  secretKey :: "byte list"

text \<open>
  The libraries of the router. \<open>validateMnemonic\<close> and \<open>mnemonicToSeedSync\<close> are
  bip39's; \<open>derivePath\<close> is ed25519-hd-key's (its result's \<^verbatim>\<open>key\<close>); \<open>fromSeed\<close> and
  \<open>fromSecretKey\<close> are web3.js's \<^verbatim>\<open>Keypair\<close> constructors; \<open>json_parse\<close> is
  \<^verbatim>\<open>JSON.parse\<close>; \<open>uint8_from\<close> is \<^verbatim>\<open>Uint8Array.from(xs.map(Number))\<close>;
  \<open>bs58_decode\<close> and \<open>bs58_encode\<close> are bs58's; \<open>base64_decode\<close> is
  \<^verbatim>\<open>Buffer.from(input, 'base64')\<close>. \<open>None\<close> is a throw.
\<close>

record sol_lib =
  sol_validateMnemonic :: "string \<Rightarrow> bool"
  sol_mnemonicToSeedSync :: "string \<Rightarrow> byte list"
  sol_derivePath :: "string \<Rightarrow> byte list \<Rightarrow> byte list option"
  fromSeed :: "byte list \<Rightarrow> keypair option"
  fromSecretKey :: "byte list \<Rightarrow> keypair option"
  json_parse :: "json \<Rightarrow> json option"
  uint8_from :: "json list \<Rightarrow> byte list"
  bs58_decode :: "json \<Rightarrow> byte list option"
  bs58_encode :: "byte list \<Rightarrow> string"
  base64_decode :: "json \<Rightarrow> byte list option"

text \<open>
  The three \<^verbatim>\<open>try { ... } catch {}\<close> blocks of \<^verbatim>\<open>keypairFromPrivateKeyInput\<close>. Each
  gives \<open>Some\<close> key pair when a \<^verbatim>\<open>return\<close> inside the block is reached, and \<open>None\<close> when
  the block ends or anything inside it throws.
\<close>

definition try_json_array :: "sol_lib \<Rightarrow> json \<Rightarrow> keypair option" where
  "try_json_array lib input =
     (case json_parse lib input of
        Some (JArr parsed) \<Rightarrow> fromSecretKey lib (uint8_from lib parsed)
      | _ \<Rightarrow> None)"

definition try_base58 :: "sol_lib \<Rightarrow> json \<Rightarrow> keypair option" where
  "try_base58 lib input =
     (case bs58_decode lib input of
        None \<Rightarrow> None
      | Some decoded \<Rightarrow>
          if length decoded = 32 then fromSeed lib decoded
          else if length decoded = 64 then fromSecretKey lib decoded
          else None)"

definition try_base64 :: "sol_lib \<Rightarrow> json \<Rightarrow> keypair option" where
  "try_base64 lib input =
     (case base64_decode lib input of
        None \<Rightarrow> None
      | Some buf \<Rightarrow>
          if length buf = 32 then fromSeed lib buf
          else if length buf = 64 then fromSecretKey lib buf
          else None)"

definition keypairFromPrivateKeyInput :: "sol_lib \<Rightarrow> json \<Rightarrow> exn + keypair" where
  "keypairFromPrivateKeyInput lib input =
     (if falsy input then Inl PrivateKeyMissing
      else case input of
        JArr xs \<Rightarrow>
          (case fromSecretKey lib (uint8_from lib xs) of
             None \<Rightarrow> Inl LibraryError
           | Some kp \<Rightarrow> Inr kp)
      | _ \<Rightarrow>
          (case try_json_array lib input of
             Some kp \<Rightarrow> Inr kp
           | None \<Rightarrow>
               (case try_base58 lib input of
                  Some kp \<Rightarrow> Inr kp
                | None \<Rightarrow>
                    (case try_base64 lib input of
                       Some kp \<Rightarrow> Inr kp
                     | None \<Rightarrow> Inl UnsupportedKeyFormat))))"


text \<open>Decimal rendering of an index inside a template literal.\<close>

definition apostrophe :: char where
  "apostrophe = CHR 0x27"

fun show_nat :: "nat \<Rightarrow> string" where
  "show_nat n =
     (if n < 10 then [''0123456789'' ! n]
      else show_nat (n div 10) @ [''0123456789'' ! (n mod 10)])"

declare show_nat.simps [simp del]

text \<open>\<^verbatim>\<open>keypairFromMnemonic\<close>, path \<^verbatim>\<open>m/44'/501'/${account}'/${change}'\<close>.\<close>

definition sol_path :: "nat \<Rightarrow> nat \<Rightarrow> string" where
  "sol_path account change =
     ''m/44'' @ [apostrophe] @ ''/501'' @ [apostrophe] @ ''/'' @ show_nat account @ [apostrophe]
       @ ''/'' @ show_nat change @ [apostrophe]"

definition keypairFromMnemonic :: "sol_lib \<Rightarrow> string \<Rightarrow> nat \<Rightarrow> nat \<Rightarrow> exn + keypair" where
  "keypairFromMnemonic lib mnemonic account change =
     (if \<not> sol_validateMnemonic lib mnemonic then Inl InvalidMnemonic
      else
        let seed = sol_mnemonicToSeedSync lib mnemonic
        in (case sol_derivePath lib (sol_path account change) seed of
              None \<Rightarrow> Inl LibraryError
            | Some derived \<Rightarrow>
                (case fromSeed lib derived of None \<Rightarrow> Inl LibraryError | Some kp \<Rightarrow> Inr kp)))"

record exported_keypair =
  exp_publicKey :: string
  exp_privateKey :: string
  exp_secretKeyArray :: "byte list"

definition exportKeypair :: "sol_lib \<Rightarrow> keypair \<Rightarrow> exported_keypair" where
  "exportKeypair lib kp =
     \<lparr>exp_publicKey = bs58_encode lib (publicKey kp),
      exp_privateKey = bs58_encode lib (secretKey kp),
      exp_secretKeyArray = secretKey kp\<rparr>"


text \<open>\<^verbatim>\<open>POST /wallet/import/mnemonic\<close>; \<^verbatim>\<open>account\<close> and \<^verbatim>\<open>change\<close> default to 0.\<close>

record sol_import_body =
  sol_mnemonic :: string
  sol_account :: "nat option"
  sol_change :: "nat option"

definition sol_import_mnemonic :: "sol_lib \<Rightarrow> 'a sol_import_body_scheme \<Rightarrow> exported_keypair reply" where
  "sol_import_mnemonic lib b =
     (if sol_mnemonic b = [] then BadRequest MissingFields
      else case keypairFromMnemonic lib (sol_mnemonic b)
                  (case sol_account b of None \<Rightarrow> 0 | Some a \<Rightarrow> a)
                  (case sol_change b of None \<Rightarrow> 0 | Some c \<Rightarrow> c) of
             Inl e \<Rightarrow> ServerError e
           | Inr kp \<Rightarrow> Ok (exportKeypair lib kp))"

text \<open>
  \<^verbatim>\<open>POST /wallet/create\<close>. \<^verbatim>\<open>bip39.generateMnemonic\<close> draws fresh randomness; its
  result for this call is the argument \<open>generated\<close>, a function of the entropy size.
  The reply is the import reply together with the mnemonic.
\<close>

record sol_create_body =
  sol_words :: "nat option"
  sol_create_account :: "nat option"
  sol_create_change :: "nat option"

definition sol_create ::
  "sol_lib \<Rightarrow> (nat \<Rightarrow> string) \<Rightarrow> sol_create_body \<Rightarrow> (string \<times> exported_keypair) reply" where
  "sol_create lib generated b =
     (let words = (case sol_words b of None \<Rightarrow> 12 | Some w \<Rightarrow> w)
      in if words \<noteq> 12 \<and> words \<noteq> 24 then BadRequest WordsNot12Or24
         else
           let entropy = (if words = 12 then 128 else 256);
               mnemonic = generated entropy
           in case keypairFromMnemonic lib mnemonic
                     (case sol_create_account b of None \<Rightarrow> 0 | Some a \<Rightarrow> a)
                     (case sol_create_change b of None \<Rightarrow> 0 | Some c \<Rightarrow> c) of
                Inl e \<Rightarrow> ServerError e
              | Inr kp \<Rightarrow> Ok (mnemonic, exportKeypair lib kp))"

text \<open>
  Modelled from the spec: \<open>LAMPORTS_PER_SOL\<close> is imported from web3.js and has no
  definition in the repository; the specification gives the chain the base-unit exponent
  9, which is the library's value.
\<close>

definition LAMPORTS_PER_SOL :: real where
  "LAMPORTS_PER_SOL = 1000000000"

text \<open>
  \<^verbatim>\<open>POST /:from/send\<close>. \<open>valid_pubkey\<close> says whether \<^verbatim>\<open>new PublicKey(to)\<close> returns;
  \<open>send_and_confirm\<close> is \<^verbatim>\<open>sendAndConfirmTransaction\<close>, which signs with the sender's
  key pair, submits and waits.
\<close>

record sol_transfer =
  fromPubkey :: "byte list"
  toPubkey :: string
  lamports :: int

record sol_env =
  sol_mul :: "real \<Rightarrow> real \<Rightarrow> real"
  library :: sol_lib
  valid_pubkey :: "string \<Rightarrow> bool"
  send_and_confirm :: "sol_transfer \<Rightarrow> keypair \<Rightarrow> string option"

record sol_send_body =
  sol_privateKey :: json
  sol_to :: string
  sol_amount :: "real option"

record sol_sent =
  sol_sent_from :: string
  sol_sent_to :: string
  sol_sent_amount :: real
  sol_sent_lamports :: int
  txSignature :: string

datatype sol_event = SendAndConfirm sol_transfer keypair

definition sol_send :: "sol_env \<Rightarrow> string \<Rightarrow> sol_send_body \<Rightarrow> sol_sent reply \<times> sol_event list" where
  "sol_send env from b =
     (case sol_amount b of
        None \<Rightarrow> (BadRequest MissingFields, [])
      | Some amount \<Rightarrow>
          if falsy (sol_privateKey b) \<or> sol_to b = [] \<or> amount = 0
          then (BadRequest MissingFields, [])
          else
            (case keypairFromPrivateKeyInput (library env) (sol_privateKey b) of
               Inl e \<Rightarrow> (ServerError e, [])
             | Inr sender \<Rightarrow>
                 if bs58_encode (library env) (publicKey sender) \<noteq> from
                 then (BadRequest SignerMismatch, [])
                 else
                   let amountLamports = \<lfloor>sol_mul env amount LAMPORTS_PER_SOL\<rfloor>
                   in if \<not> valid_pubkey env (sol_to b) then (ServerError LibraryError, [])
                      else
                        let tx = \<lparr>fromPubkey = publicKey sender, toPubkey = sol_to b,
                                   lamports = amountLamports\<rparr>
                        in (case send_and_confirm env tx sender of
                              None \<Rightarrow> (ServerError ProviderError, [SendAndConfirm tx sender])
                            | Some sig \<Rightarrow>
                                (Ok \<lparr>sol_sent_from = from, sol_sent_to = sol_to b,
                                     sol_sent_amount = amount,
                                     sol_sent_lamports = amountLamports, txSignature = sig\<rparr>,
                                 [SendAndConfirm tx sender]))))"

section \<open>Extended-UTXO chain (cardano-server.mjs)\<close>

subsection \<open>Key derivation\<close>

text \<open>
  The libraries of \<^verbatim>\<open>deriveKeysFromMnemonic\<close>: bip39's \<open>validateMnemonic\<close> and
  \<open>mnemonicToEntropy\<close>, and the serialization library's
  \<^verbatim>\<open>Bip32PrivateKey.from_bip39_entropy\<close>, \<^verbatim>\<open>derive\<close> (the index is a 32-bit word),
  \<^verbatim>\<open>to_raw_key().to_public().hash()\<close> and
  \<^verbatim>\<open>BaseAddress.new(network, payment, stake).to_address().to_bech32()\<close>. Keys and hashes
  are byte strings.
\<close>

record ada_lib =
  ada_validateMnemonic :: "string \<Rightarrow> bool"
  mnemonicToEntropy :: "string \<Rightarrow> byte list"
  from_bip39_entropy :: "byte list \<Rightarrow> byte list"
  derive :: "byte list \<Rightarrow> 32 word \<Rightarrow> byte list"
  public_key_hash :: "byte list \<Rightarrow> byte list"
  base_address_bech32 :: "nat \<Rightarrow> byte list \<Rightarrow> byte list \<Rightarrow> string"

text \<open>\<^verbatim>\<open>i | 0x80000000\<close>, read as the unsigned index the library receives.\<close>

definition hardened :: "32 word \<Rightarrow> 32 word" where
  "hardened i = i OR 0x80000000"

record ada_keys =
  ada_address :: string
  paymentKey :: "byte list"

text \<open>
  \<open>network\<close> is the module constant \<^verbatim>\<open>NETWORK\<close>, read once from the process
  environment when the module is loaded.
\<close>

definition derive_keys :: "ada_lib \<Rightarrow> nat \<Rightarrow> string \<Rightarrow> exn + ada_keys" where
  "derive_keys lib networkId mnemonic =
     (if \<not> ada_validateMnemonic lib mnemonic then Inl InvalidMnemonic
      else
        let entropy = mnemonicToEntropy lib mnemonic;
            rootKey = from_bip39_entropy lib entropy;
            accountKey = derive lib (derive lib (derive lib rootKey (hardened 1852))
                                       (hardened 1815)) (hardened 0);
            payment = derive lib (derive lib accountKey 0) 0;
            stakeKey = derive lib (derive lib accountKey 2) 0;
            paymentCred = public_key_hash lib payment;
            stakeCred = public_key_hash lib stakeKey
        in Inr \<lparr>ada_address = base_address_bech32 lib networkId paymentCred stakeCred,
                 paymentKey = payment\<rparr>)"

text \<open>
  \<^verbatim>\<open>deriveKeysFromMnemonic\<close> of the first router tags the address with
  \<^verbatim>\<open>NETWORK === "testnet" ? 0 : 1\<close>, that of the second router with
  \<^verbatim>\<open>NETWORK === "mainnet" ? 1 : 0\<close>; the key derivation is the same.
\<close>

definition deriveKeysFromMnemonic :: "ada_lib \<Rightarrow> string \<Rightarrow> string \<Rightarrow> exn + ada_keys" where
  "deriveKeysFromMnemonic lib network mnemonic =
     derive_keys lib (if network = ''testnet'' then 0 else 1) mnemonic"

definition deriveKeysFromMnemonic2 :: "ada_lib \<Rightarrow> string \<Rightarrow> string \<Rightarrow> exn + ada_keys" where
  "deriveKeysFromMnemonic2 lib network mnemonic =
     derive_keys lib (if network = ''mainnet'' then 1 else 0) mnemonic"

text \<open>\<^verbatim>\<open>POST /wallet/import\<close>: the reply repeats the mnemonic and gives the address.\<close>

record ada_import_body =
  ada_mnemonic :: string

record ada_imported =
  imported_network :: string
  imported_mnemonic :: string
  imported_address :: string

definition ada_import :: "ada_lib \<Rightarrow> string \<Rightarrow> 'a ada_import_body_scheme \<Rightarrow> ada_imported reply" where
  "ada_import lib network b =
     (if ada_mnemonic b = [] then BadRequest MissingFields
      else case deriveKeysFromMnemonic lib network (ada_mnemonic b) of
             Inl e \<Rightarrow> ServerError e
           | Inr keys \<Rightarrow>
               Ok \<lparr>imported_network = network, imported_mnemonic = ada_mnemonic b,
                   imported_address = ada_address keys\<rparr>)"

text \<open>
  \<^verbatim>\<open>POST /wallet/create\<close>: 24 words unless the body says otherwise; any word count
  other than 24 gives 128 bits of entropy.
\<close>

definition ada_create :: "ada_lib \<Rightarrow> string \<Rightarrow> (nat \<Rightarrow> string) \<Rightarrow> nat option \<Rightarrow> ada_imported reply" where
  "ada_create lib network generated words =
     (let strength = (if (case words of None \<Rightarrow> 24 | Some w \<Rightarrow> w) = 24 then 256 else 128);
          mnemonic = generated strength
      in case deriveKeysFromMnemonic lib network mnemonic of
           Inl e \<Rightarrow> ServerError e
         | Inr keys \<Rightarrow>
             Ok \<lparr>imported_network = network, imported_mnemonic = mnemonic,
                 imported_address = ada_address keys\<rparr>)"

subsection \<open>The send routes\<close>

text \<open>
  An unspent output as Blockfrost returns it; \<^verbatim>\<open>amount\<close> is a list of
  \<^verbatim>\<open>{ unit, quantity }\<close>, the quantity being the number \<^verbatim>\<open>Number(quantity)\<close>.
\<close>

record ada_utxo =
  tx_hash :: string
  tx_index :: nat
  utxo_amount :: "(string \<times> int) list"

definition find_lovelace :: "ada_utxo \<Rightarrow> (string \<times> int) option" where
  "find_lovelace u = find (\<lambda>a. fst a = ''lovelace'') (utxo_amount u)"

text \<open>
  The input loop of the first router. An output without a lovelace entry is skipped
  (\<^verbatim>\<open>continue\<close>); every other one is added as an input with its quantity, and the loop
  breaks once \<^verbatim>\<open>totalInput >= amountLovelace + 3_000_000\<close>. The outputs are visited
  in the order of the provider's reply.
\<close>

fun input_loop :: "ada_utxo list \<Rightarrow> int \<Rightarrow> (ada_utxo \<times> int) list \<Rightarrow> int
    \<Rightarrow> (ada_utxo \<times> int) list \<times> int" where
  "input_loop [] target ins totalInput = (ins, totalInput)"
| "input_loop (u # us) target ins totalInput =
     (case find_lovelace u of
        None \<Rightarrow> input_loop us target ins totalInput
      | Some lovelace \<Rightarrow>
          let quantity = snd lovelace;
              totalInput' = totalInput + quantity;
              ins' = ins @ [(u, quantity)]
          in if totalInput' \<ge> target then (ins', totalInput')
             else input_loop us target ins' totalInput')"

text \<open>
  The input loop of the second router: an output without a lovelace entry counts as 0
  and is added all the same; the loop breaks once
  \<^verbatim>\<open>totalInput >= amountLovelace + 2_000_000\<close>.
\<close>

fun input_loop2 :: "ada_utxo list \<Rightarrow> int \<Rightarrow> (ada_utxo \<times> int) list \<Rightarrow> int
    \<Rightarrow> (ada_utxo \<times> int) list \<times> int" where
  "input_loop2 [] target ins totalInput = (ins, totalInput)"
| "input_loop2 (u # us) target ins totalInput =
     (let quantity = (case find_lovelace u of None \<Rightarrow> 0 | Some lov \<Rightarrow> snd lov);
          totalInput' = totalInput + quantity;
          ins' = ins @ [(u, quantity)]
      in if totalInput' \<ge> target then (ins', totalInput')
         else input_loop2 us target ins' totalInput')"

text \<open>
  The sequences the two loops walk along: for the first router the outputs that have a
  lovelace entry, each with its quantity, in the order of the provider's reply; for the
  second router every output, with 0 for a missing entry.
\<close>

definition lovelace_inputs :: "ada_utxo list \<Rightarrow> (ada_utxo \<times> int) list" where
  "lovelace_inputs utxos =
     List.map_filter (\<lambda>u. map_option (\<lambda>l. (u, snd l)) (find_lovelace u)) utxos"

definition all_inputs :: "ada_utxo list \<Rightarrow> (ada_utxo \<times> int) list" where
  "all_inputs utxos =
     map (\<lambda>u. (u, case find_lovelace u of None \<Rightarrow> 0 | Some l \<Rightarrow> snd l)) utxos"

definition input_total :: "(ada_utxo \<times> int) list \<Rightarrow> int" where
  "input_total ins = (\<Sum>i\<leftarrow>ins. snd i)"

text \<open>
  What is handed to the transaction builder: the output, the inputs with their values
  in the order added, and the address of \<^verbatim>\<open>add_change_if_needed\<close>. \<open>build_and_sign\<close>
  stands for the builder calls, \<^verbatim>\<open>build\<close>, \<^verbatim>\<open>hash_transaction\<close>,
  \<^verbatim>\<open>make_vkey_witness\<close> with the payment key and \<^verbatim>\<open>to_bytes\<close>; \<open>utxos_of\<close> and
  \<open>submit\<close> are Blockfrost's answers.
\<close>

record ada_draft =
  draft_output :: "string \<times> int"
  draft_inputs :: "(ada_utxo \<times> int) list"
  draft_change_address :: string

record ada_env =
  ada_mul :: "real \<Rightarrow> real \<Rightarrow> real"
  ada_library :: ada_lib
  ada_network :: string
  utxos_of :: "string \<Rightarrow> ada_utxo list option"
  build_and_sign :: "ada_draft \<Rightarrow> byte list \<Rightarrow> byte list option"
  submit :: "byte list \<Rightarrow> string option"

record ada_send_body =
  send_mnemonic :: string
  ada_to :: string
  ada_amount :: "real option"

record ada_sent =
  ada_sent_from :: string
  ada_sent_to :: string
  ada_sent_amount :: real
  ada_txHash :: string

datatype ada_event =
    DeriveKeys string
  | FetchAdaUtxos string
  | BuildAndSign ada_draft
  | SubmitTx "byte list"

text \<open>
  From the UTXO request to the reply; shared by the two routers, which differ in the
  loop and in its buffer.
\<close>

definition ada_fund_and_sign ::
  "ada_env \<Rightarrow> (ada_utxo list \<Rightarrow> int \<Rightarrow> (ada_utxo \<times> int) list \<Rightarrow> int \<Rightarrow> (ada_utxo \<times> int) list \<times> int)
     \<Rightarrow> int \<Rightarrow> ada_send_body \<Rightarrow> real \<Rightarrow> int \<Rightarrow> ada_keys \<Rightarrow> ada_sent reply \<times> ada_event list" where
  "ada_fund_and_sign env loop buffer b amount amountLovelace keys =
     (let events = [DeriveKeys (send_mnemonic b), FetchAdaUtxos (ada_address keys)]
      in case utxos_of env (ada_address keys) of
           None \<Rightarrow> (ServerError ProviderError, events)
         | Some utxos \<Rightarrow>
             if utxos = [] then (BadRequest NoUtxos, events)
             else
               let (ins, totalInput) = loop utxos (amountLovelace + buffer) [] 0;
                   draft = \<lparr>draft_output = (ada_to b, amountLovelace), draft_inputs = ins,
                            draft_change_address = ada_address keys\<rparr>
               in (case build_and_sign env draft (paymentKey keys) of
                     None \<Rightarrow> (ServerError LibraryError, events @ [BuildAndSign draft])
                   | Some signedTx \<Rightarrow>
                       (case submit env signedTx of
                          None \<Rightarrow> (ServerError ProviderError,
                                    events @ [BuildAndSign draft, SubmitTx signedTx])
                        | Some h \<Rightarrow>
                            (Ok \<lparr>ada_sent_from = ada_address keys, ada_sent_to = ada_to b,
                                 ada_sent_amount = amount, ada_txHash = h\<rparr>,
                             events @ [BuildAndSign draft, SubmitTx signedTx]))))"

text \<open>\<^verbatim>\<open>POST /send\<close> of the first router.\<close>

definition ada_send :: "ada_env \<Rightarrow> ada_send_body \<Rightarrow> ada_sent reply \<times> ada_event list" where
  "ada_send env b =
     (case ada_amount b of
        None \<Rightarrow> (BadRequest MissingFields, [])
      | Some amount \<Rightarrow>
          if send_mnemonic b = [] \<or> ada_to b = [] \<or> amount = 0
          then (BadRequest MissingFields, [])
          else if \<not> prefix ''addr'' (ada_to b) then (BadRequest InvalidAddress, [])
          else
            let amountLovelace = \<lfloor>ada_mul env amount 1000000\<rfloor>
            in if amountLovelace < 1000000 then (BadRequest MinimumAda, [])
               else
                 (case deriveKeysFromMnemonic (ada_library env) (ada_network env)
                         (send_mnemonic b) of
                    Inl e \<Rightarrow> (ServerError e, [DeriveKeys (send_mnemonic b)])
                  | Inr keys \<Rightarrow>
                      ada_fund_and_sign env input_loop 3000000 b amount amountLovelace keys))"

text \<open>
  \<^verbatim>\<open>POST /send\<close> of the second router: no address check and no minimum amount.
\<close>

definition ada_send2 :: "ada_env \<Rightarrow> ada_send_body \<Rightarrow> ada_sent reply \<times> ada_event list" where
  "ada_send2 env b =
     (case ada_amount b of
        None \<Rightarrow> (BadRequest MissingFields, [])
      | Some amount \<Rightarrow>
          if send_mnemonic b = [] \<or> ada_to b = [] \<or> amount = 0
          then (BadRequest MissingFields, [])
          else
            let amountLovelace = \<lfloor>ada_mul env amount 1000000\<rfloor>
            in (case deriveKeysFromMnemonic2 (ada_library env) (ada_network env)
                       (send_mnemonic b) of
                  Inl e \<Rightarrow> (ServerError e, [DeriveKeys (send_mnemonic b)])
                | Inr keys \<Rightarrow>
                    ada_fund_and_sign env input_loop2 2000000 b amount amountLovelace keys))"

section \<open>Key derivation of the UTXO and account chains\<close>

text \<open>
  \<^verbatim>\<open>deriveFromMnemonic\<close> of btc-server.mjs. The libraries: bip39's \<open>validateMnemonic\<close>
  and \<open>mnemonicToSeedSync\<close>, bip32's \<^verbatim>\<open>fromSeed\<close> and \<^verbatim>\<open>derivePath\<close> (\<open>None\<close>: the path
  is refused), \<^verbatim>\<open>toWIF\<close>, and the address of \<^verbatim>\<open>buildAddressFromNode\<close>. A node is its
  private and public key.
\<close>

record hd_node =
  node_privateKey :: "byte list"
  node_publicKey :: "byte list"

record btc_lib =
  btc_validateMnemonic :: "string \<Rightarrow> bool"
  btc_mnemonicToSeedSync :: "string \<Rightarrow> byte list"
  bip32_fromSeed :: "byte list \<Rightarrow> hd_node"
  bip32_derivePath :: "hd_node \<Rightarrow> string \<Rightarrow> hd_node option"
  p2wpkh_address :: "byte list \<Rightarrow> string"
  toWIF :: "hd_node \<Rightarrow> string"

definition DEFAULT_PURPOSE :: nat where "DEFAULT_PURPOSE = 84"
definition DEFAULT_COIN :: nat where "DEFAULT_COIN = 0"

definition btc_path :: "nat \<Rightarrow> nat \<Rightarrow> string" where
  "btc_path account addressIndex =
     ''m/'' @ show_nat DEFAULT_PURPOSE @ [apostrophe] @ ''/'' @ show_nat DEFAULT_COIN
       @ [apostrophe] @ ''/'' @ show_nat account @ [apostrophe] @ ''/0/'' @ show_nat addressIndex"

definition deriveFromMnemonic :: "btc_lib \<Rightarrow> string \<Rightarrow> nat \<Rightarrow> nat \<Rightarrow> exn + (hd_node \<times> string)" where
  "deriveFromMnemonic lib mnemonic account addressIndex =
     (if \<not> btc_validateMnemonic lib mnemonic then Inl InvalidMnemonic
      else
        let seed = btc_mnemonicToSeedSync lib mnemonic;
            root = bip32_fromSeed lib seed;
            path = btc_path account addressIndex
        in (case bip32_derivePath lib root path of
              None \<Rightarrow> Inl LibraryError
            | Some child \<Rightarrow> Inr (child, path)))"

definition buildAddressFromNode :: "btc_lib \<Rightarrow> hd_node \<Rightarrow> string" where
  "buildAddressFromNode lib node = p2wpkh_address lib (node_publicKey node)"

text \<open>\<^verbatim>\<open>POST /wallet/import/mnemonic\<close> of btc-server.mjs.\<close>

record btc_import_body =
  btc_mnemonic :: string
  btc_accountIndex :: "nat option"
  btc_addressIndex :: "nat option"

record btc_imported =
  btc_imported_mnemonic :: string
  derivationPath :: string
  btc_imported_address :: string
  privateKeyWIF :: string

definition btc_import_mnemonic :: "btc_lib \<Rightarrow> 'a btc_import_body_scheme \<Rightarrow> btc_imported reply" where
  "btc_import_mnemonic lib b =
     (if btc_mnemonic b = [] then BadRequest MissingFields
      else case deriveFromMnemonic lib (btc_mnemonic b)
                  (case btc_accountIndex b of None \<Rightarrow> 0 | Some a \<Rightarrow> a)
                  (case btc_addressIndex b of None \<Rightarrow> 0 | Some i \<Rightarrow> i) of
             Inl e \<Rightarrow> ServerError e
           | Inr (child, path) \<Rightarrow>
               Ok \<lparr>btc_imported_mnemonic = btc_mnemonic b, derivationPath = path,
                   btc_imported_address = buildAddressFromNode lib child,
                   privateKeyWIF = toWIF lib child\<rparr>)"

text \<open>\<^verbatim>\<open>POST /wallet/create\<close> of btc-server.mjs, with the generated mnemonic as for Solana.\<close>

record btc_create_body =
  btc_words :: "nat option"
  btc_create_accountIndex :: "nat option"
  btc_create_addressIndex :: "nat option"

definition btc_create :: "btc_lib \<Rightarrow> (nat \<Rightarrow> string) \<Rightarrow> btc_create_body \<Rightarrow> btc_imported reply" where
  "btc_create lib generated b =
     (let words = (case btc_words b of None \<Rightarrow> 12 | Some w \<Rightarrow> w)
      in if words \<noteq> 12 \<and> words \<noteq> 24 then BadRequest WordsNot12Or24
         else
           let strength = (if words = 24 then 256 else 128);
               mnemonic = generated strength
           in case deriveFromMnemonic lib mnemonic
                     (case btc_create_accountIndex b of None \<Rightarrow> 0 | Some a \<Rightarrow> a)
                     (case btc_create_addressIndex b of None \<Rightarrow> 0 | Some i \<Rightarrow> i) of
                Inl e \<Rightarrow> ServerError e
              | Inr (child, path) \<Rightarrow>
                  Ok \<lparr>btc_imported_mnemonic = mnemonic, derivationPath = path,
                      btc_imported_address = buildAddressFromNode lib child,
                      privateKeyWIF = toWIF lib child\<rparr>)"

text \<open>
  \<^verbatim>\<open>POST /wallet/import/mnemonic\<close> of the EVM router: \<^verbatim>\<open>Wallet.fromPhrase(mnemonic)\<close>
  gives the address and the private key (\<open>None\<close>: the phrase is refused); the chain only
  selects the provider the wallet is connected to.
\<close>

record evm_import_body =
  evm_mnemonic :: string
  evm_import_chain :: "string option"

record evm_imported =
  evm_imported_address :: string
  evm_imported_privateKey :: string
  evm_imported_chain :: string

definition evm_import_mnemonic ::
  "(string \<Rightarrow> (string \<times> string) option) \<Rightarrow> 'a evm_import_body_scheme \<Rightarrow> evm_imported reply" where
  "evm_import_mnemonic fromPhrase b =
     (let chain = (case evm_import_chain b of None \<Rightarrow> ''ethereum'' | Some c \<Rightarrow> c)
      in if evm_mnemonic b = [] then BadRequest MissingFields
         else if chain \<notin> set CHAINS then ServerError UnsupportedChain
         else case fromPhrase (evm_mnemonic b) of
                None \<Rightarrow> ServerError LibraryError
              | Some (address, privateKey) \<Rightarrow>
                  Ok \<lparr>evm_imported_address = address, evm_imported_privateKey = privateKey,
                      evm_imported_chain = chain\<rparr>)"

section \<open>Concrete requests and environments\<close>

text \<open>Inputs on which the theorems below are evaluated.\<close>

definition ex_utxo :: "string \<Rightarrow> nat \<Rightarrow> utxo" where
  "ex_utxo t v = \<lparr>txid = t, vout = 0, value' = v\<rparr>"

text \<open>
  A Blockstream environment with two wallets. The first holds one output of 50001400
  satoshi, the second three outputs. Multiplication is exact, the provider's fee
  estimate is 9.6 sat/vB, and signing and broadcast succeed.
\<close>

definition ex_btc_env :: btc_env where
  "ex_btc_env =
     \<lparr>btc_mul = (\<lambda>x y. x * y),
      wif_address = (\<lambda>w. if w = ''wif-A'' then Some ''addr-A''
                          else if w = ''wif-B'' then Some ''addr-B'' else None),
      get_utxos = (\<lambda>a. if a = ''addr-A'' then Some [ex_utxo ''t1'' 50001400]
                        else if a = ''addr-B''
                        then Some [ex_utxo ''t2'' 30000000, ex_utxo ''t3'' 10000000,
                                   ex_utxo ''t4'' 25000000]
                        else Some []),
      get_fee_estimates = Some (Some (96 / 10)),
      sign_psbt = (\<lambda>d k. Some ''signed-hex''),
      post_tx = (\<lambda>h. Some ''txid-1'')\<rparr>"

text \<open>Half a bitcoin from the first wallet at 10 sat/vB: amount plus fee is the whole output.\<close>

definition ex_btc_exact :: btc_send_body where
  "ex_btc_exact =
     \<lparr>btc_privateKeyWIF = ''wif-A'', btc_to = ''addr-C'', btc_amount = Some (1 / 2),
      btc_feeRate = Some 10\<rparr>"

text \<open>A quarter of a bitcoin from the second wallet, fee rate from the provider.\<close>

definition ex_btc_quarter :: btc_send_body where
  "ex_btc_quarter =
     \<lparr>btc_privateKeyWIF = ''wif-B'', btc_to = ''addr-C'', btc_amount = Some (1 / 4),
      btc_feeRate = None\<rparr>"

text \<open>Three quarters of a bitcoin from the second wallet, which holds less.\<close>

definition ex_btc_short :: btc_send_body where
  "ex_btc_short =
     \<lparr>btc_privateKeyWIF = ''wif-B'', btc_to = ''addr-C'', btc_amount = Some (3 / 4),
      btc_feeRate = Some 10\<rparr>"

text \<open>
  A request to the Tatum router that declares the first wallet's address as sender and
  gives the second wallet's key; the provider accepts the request.
\<close>

definition ex_tatum_env :: tatum_env where
  "ex_tatum_env = \<lparr>post_transaction = (\<lambda>p. Some ''txid-2'')\<rparr>"

definition ex_tatum_body :: tatum_send_body where
  "ex_tatum_body =
     \<lparr>tatum_to = ''addr-C'', tatum_amount = Some (1 / 4), tatum_privateKey = ''wif-B''\<rparr>"

text \<open>
  An account-chain environment: one key, whose wallet address is written with capital
  hex digits; a balance of 1000000 wei on every chain; a legacy gas price of 7 and no
  EIP-1559 quote; a gas estimate of 21000.
\<close>

definition ex_evm_env :: evm_env where
  "ex_evm_env =
     \<lparr>is_address = (\<lambda>a. length a = 6),
      wallet_address = (\<lambda>k. if k = ''key-1'' then Some ''0xAB12'' else None),
      get_balance = (\<lambda>c a. Some 1000000),
      get_fee_data = (\<lambda>c. Some \<lparr>gasPrice = Some 7, maxFeePerGas = None,
                                    maxPriorityFeePerGas = None\<rparr>),
      estimate_gas = (\<lambda>c f t. Some 21000),
      parse_amount = (\<lambda>v. None),
      send_transaction = (\<lambda>k c tx. Some ''0xhash'')\<rparr>"

definition ex_evm_max :: evm_send_body where
  "ex_evm_max =
     \<lparr>evm_to = ''0xcd34'', evm_amount = JStr ''max'', evm_privateKey = ''key-1'',
      evm_chain = None, evm_gasLimit = JNull\<rparr>"

text \<open>The same environment with a balance of 100000 wei, below the gas cost of 147000.\<close>

definition ex_evm_poor :: evm_env where
  "ex_evm_poor = ex_evm_env\<lparr>get_balance := (\<lambda>c a. Some 100000)\<rparr>"

text \<open>
  A Cardano environment: the wallet of every mnemonic holds an output of 10 ada followed
  by one of 2 ada; multiplication is exact; building, signing and submitting succeed.
\<close>

definition ex_ada_lib :: ada_lib where
  "ex_ada_lib =
     \<lparr>ada_validateMnemonic = (\<lambda>m. m \<noteq> ''bad words''),
      mnemonicToEntropy = (\<lambda>m. [of_nat (length m)]),
      from_bip39_entropy = (\<lambda>e. e),
      derive = (\<lambda>k i. k @ [ucast i]),
      public_key_hash = (\<lambda>k. take 4 k),
      base_address_bech32 = (\<lambda>n p s. ''addr1-wallet'')\<rparr>"

definition ex_ada_utxos :: "ada_utxo list" where
  "ex_ada_utxos =
     [\<lparr>tx_hash = ''h1'', tx_index = 0, utxo_amount = [(''lovelace'', 10000000)]\<rparr>,
      \<lparr>tx_hash = ''h2'', tx_index = 1, utxo_amount = [(''lovelace'', 2000000)]\<rparr>]"

definition ex_ada_env :: ada_env where
  "ex_ada_env =
     \<lparr>ada_mul = (\<lambda>x y. x * y), ada_library = ex_ada_lib, ada_network = ''mainnet'',
      utxos_of = (\<lambda>a. Some ex_ada_utxos),
      build_and_sign = (\<lambda>d k. Some [1, 2, 3]),
      submit = (\<lambda>t. Some ''ada-tx-hash'')\<rparr>"

definition ex_ada_body :: "real \<Rightarrow> ada_send_body" where
  "ex_ada_body amount =
     \<lparr>send_mnemonic = ''seed words'', ada_to = ''addr1-dest'', ada_amount = Some amount\<rparr>"

text \<open>
  Solana libraries in which \<^verbatim>\<open>JSON.parse\<close> and the base58 decoder refuse every input
  but one each, and the base64 decoder returns 32 bytes for one input and nothing
  otherwise.
\<close>

definition ex_sol_lib :: sol_lib where
  "ex_sol_lib =
     \<lparr>sol_validateMnemonic = (\<lambda>m. m \<noteq> ''bad words''),
      sol_mnemonicToSeedSync = (\<lambda>m. [of_nat (length m)]),
      sol_derivePath = (\<lambda>p seed. Some (replicate 32 3)),
      fromSeed = (\<lambda>bs. if length bs = 32 then Some \<lparr>publicKey = bs, secretKey = bs @ bs\<rparr>
                         else None),
      fromSecretKey = (\<lambda>bs. if length bs = 64
                              then Some \<lparr>publicKey = drop 32 bs, secretKey = bs\<rparr> else None),
      json_parse = (\<lambda>v. if v = JStr ''[7]'' then Some (JArr [JNum 7]) else None),
      uint8_from = (\<lambda>xs. replicate (length xs) 7),
      bs58_decode = (\<lambda>v. if v = JStr ''seed58'' then Some (replicate 32 5) else None),
      bs58_encode = (\<lambda>bs. if length bs = 32 \<and> hd bs = 5 then ''SolAddr5''
                            else if length bs = 32 then ''SolPublic'' else ''SolSecret''),
      base64_decode = (\<lambda>v. if v = JStr ''seed64'' then Some (replicate 32 6) else Some [])\<rparr>"

definition ex_sol_env :: sol_env where
  "ex_sol_env =
     \<lparr>sol_mul = (\<lambda>x y. x * y), library = ex_sol_lib, valid_pubkey = (\<lambda>a. True),
      send_and_confirm = (\<lambda>tx kp. Some ''sol-signature'')\<rparr>"

definition ex_sol_body :: sol_send_body where
  "ex_sol_body = \<lparr>sol_privateKey = JStr ''seed58'', sol_to = ''SolDest'', sol_amount = Some (3 / 2)\<rparr>"

text \<open>Bitcoin libraries for the derivation, and a generator that always draws the same words.\<close>

definition ex_btc_lib :: btc_lib where
  "ex_btc_lib =
     \<lparr>btc_validateMnemonic = (\<lambda>m. m \<noteq> ''bad words''),
      btc_mnemonicToSeedSync = (\<lambda>m. [of_nat (length m)]),
      bip32_fromSeed = (\<lambda>seed. \<lparr>node_privateKey = seed, node_publicKey = rev seed\<rparr>),
      bip32_derivePath = (\<lambda>n p. Some \<lparr>node_privateKey = node_privateKey n @ [of_nat (length p)],
                                          node_publicKey = node_publicKey n\<rparr>),
      p2wpkh_address = (\<lambda>pk. ''bc1q-wallet''),
      toWIF = (\<lambda>n. ''wif-of-node'')\<rparr>"

definition ex_generated :: "nat \<Rightarrow> string" where
  "ex_generated strength = (if strength = 128 then ''twelve words'' else ''twenty-four words'')"

text \<open>
  The environments above with the multiplication of the language, and a Solana request
  for 4.1 SOL: its amount is the double nearest to 4.1, as \<^verbatim>\<open>JSON.parse\<close> gives it.
\<close>

definition ex_btc_env64 :: btc_env where
  "ex_btc_env64 = ex_btc_env\<lparr>btc_mul := fmul\<rparr>"

definition ex_sol_env64 :: sol_env where
  "ex_sol_env64 = ex_sol_env\<lparr>sol_mul := fmul\<rparr>"

definition ex_ada_env64 :: ada_env where
  "ex_ada_env64 = ex_ada_env\<lparr>ada_mul := fmul\<rparr>"

definition ex_sol_body41 :: sol_send_body where
  "ex_sol_body41 =
     \<lparr>sol_privateKey = JStr ''seed58'', sol_to = ''SolDest'',
      sol_amount = Some (binary64 (41 / 10))\<rparr>"

section \<open>Theorems\<close>

subsection \<open>The UTXO selector\<close>

lemma greedy_loop_char:
  "\<exists>k. k \<le> length us \<and> (us \<noteq> [] \<longrightarrow> 0 < k) \<and>
       greedy_loop us target chosen running = (chosen @ take k us, running + total_value (take k us)) \<and>
       (\<forall>j. 0 < j \<and> j < k \<longrightarrow> running + total_value (take j us) < target) \<and>
       (k < length us \<longrightarrow> target \<le> running + total_value (take k us))"
proof (induction us arbitrary: chosen running)
  case Nil
  then show ?case by (simp add: total_value_def)
next
  case (Cons u us)
  show ?case
  proof (cases "running + int (value' u) \<ge> target")
    case True
    show ?thesis
      by (rule exI [of _ 1]) (use True in \<open>simp add: total_value_def\<close>)
  next
    case False
    from Cons.IH [of "chosen @ [u]" "running + int (value' u)"]
    obtain k where k: "k \<le> length us" "us \<noteq> [] \<longrightarrow> 0 < k"
      "greedy_loop us target (chosen @ [u]) (running + int (value' u)) =
         ((chosen @ [u]) @ take k us, running + int (value' u) + total_value (take k us))"
      "\<forall>j. 0 < j \<and> j < k \<longrightarrow> running + int (value' u) + total_value (take j us) < target"
      "k < length us \<longrightarrow> target \<le> running + int (value' u) + total_value (take k us)"
      by blast
    have pre: "\<forall>j. 0 < j \<and> j < Suc k \<longrightarrow> running + total_value (take j (u # us)) < target"
    proof (intro allI impI)
      fix j assume j: "0 < j \<and> j < Suc k"
      then obtain j' where j': "j = Suc j'" by (cases j) auto
      show "running + total_value (take j (u # us)) < target"
      proof (cases j')
        case 0
        with j' False show ?thesis by (simp add: total_value_def)
      next
        case (Suc n)
        with j j' k(4) have "running + int (value' u) + total_value (take j' us) < target" by simp
        with j' show ?thesis by (simp add: total_value_def)
      qed
    qed
    have run: "greedy_loop (u # us) target chosen running =
        (chosen @ take (Suc k) (u # us), running + total_value (take (Suc k) (u # us)))"
      using False k(3) by (simp add: total_value_def Let_def)
    have stop: "Suc k < length (u # us) \<longrightarrow> target \<le> running + total_value (take (Suc k) (u # us))"
      using k(5) by (simp add: total_value_def add.assoc)
    show ?thesis
      using k(1) run pre stop by (intro exI [of _ "Suc k"]) simp
  qed
qed

lemma total_value_sort: "total_value (sort_key value' us) = total_value us"
proof -
  have "sum_mset (image_mset (\<lambda>u. int (value' u)) (mset (sort_key value' us))) =
        sum_mset (image_mset (\<lambda>u. int (value' u)) (mset us))"
    by simp
  then show ?thesis
    unfolding total_value_def by (metis mset_map sum_mset_sum_list)
qed

lemma total_value_take_le: "total_value (take k us) \<le> total_value us"
proof -
  have "total_value us = total_value (take k us) + total_value (drop k us)"
    unfolding total_value_def by (metis append_take_drop_id map_append sum_list_append)
  moreover have "0 \<le> total_value (drop k us)"
    unfolding total_value_def by (rule sum_list_nonneg) auto
  ultimately show ?thesis by simp
qed

text \<open>
  C2. For every list of unspent outputs and every integer target, \<open>selectUtxosGreedy\<close>
  works on the outputs sorted ascending by value (a permutation of the input), returns
  a prefix \<open>chosen\<close> of that sorted list together with the sum of its values, and stops
  at the first output whose addition brings the running sum to the target: no shorter
  non-empty prefix reaches the target, and the selection ends before the last output
  only when the target is reached. The comparison is made after each addition, so a
  non-empty list always gives at least one output. When the total of all outputs is
  below the target, the whole sorted list is returned with its insufficient sum; the
  function is total and raises nothing. For the outputs 1000, 2000, 5000 and the target
  3500 all three are chosen and the sum is 8000.
\<close>

theorem selectUtxosGreedy_first_fit_ascending:
  "(case selectUtxosGreedy utxos target of
      (chosen, total_in) \<Rightarrow>
        sorted (map value' (sort_key value' utxos)) \<and>
        mset (sort_key value' utxos) = mset utxos \<and>
        prefix chosen (sort_key value' utxos) \<and>
        (utxos \<noteq> [] \<longrightarrow> chosen \<noteq> []) \<and>
        total_in = total_value chosen \<and>
        (\<forall>j. 0 < j \<and> j < length chosen \<longrightarrow> total_value (take j chosen) < target) \<and>
        (chosen \<noteq> sort_key value' utxos \<longrightarrow> target \<le> total_in) \<and>
        (total_value utxos < target \<longrightarrow>
           chosen = sort_key value' utxos \<and> total_in = total_value utxos)) \<and>
   selectUtxosGreedy [ex_utxo ''a'' 1000, ex_utxo ''b'' 2000, ex_utxo ''c'' 5000] 3500 =
     ([ex_utxo ''a'' 1000, ex_utxo ''b'' 2000, ex_utxo ''c'' 5000], 8000)"
proof -
  define ordered where "ordered = sort_key value' utxos"
  obtain k where k: "k \<le> length ordered" "ordered \<noteq> [] \<longrightarrow> 0 < k"
    "greedy_loop ordered target [] 0 = ([] @ take k ordered, 0 + total_value (take k ordered))"
    "\<forall>j. 0 < j \<and> j < k \<longrightarrow> 0 + total_value (take j ordered) < target"
    "k < length ordered \<longrightarrow> target \<le> 0 + total_value (take k ordered)"
    using greedy_loop_char [of ordered target "[]" 0] by blast
  have sel: "selectUtxosGreedy utxos target = (take k ordered, total_value (take k ordered))"
    using k(3) by (simp add: selectUtxosGreedy_def ordered_def)
  have "utxos \<noteq> [] \<longrightarrow> ordered \<noteq> []"
    by (metis length_sort list.size(3) length_0_conv ordered_def)
  then have nonempty: "utxos \<noteq> [] \<longrightarrow> take k ordered \<noteq> []"
    using k(1,2) by auto
  have minimal: "\<forall>j. 0 < j \<and> j < length (take k ordered) \<longrightarrow>
      total_value (take j (take k ordered)) < target"
    using k(4) by (auto simp: min_def)
  have early: "take k ordered \<noteq> ordered \<longrightarrow> target \<le> total_value (take k ordered)"
    using k(1,5) by (cases "k < length ordered") auto
  have short: "total_value utxos < target \<longrightarrow>
      take k ordered = ordered \<and> total_value (take k ordered) = total_value utxos"
  proof
    assume less: "total_value utxos < target"
    have "total_value (take k ordered) \<le> total_value utxos"
      using total_value_take_le [of k ordered] by (simp add: ordered_def total_value_sort)
    with less k(5) have "\<not> k < length ordered" by auto
    then have "take k ordered = ordered" by simp
    then show "take k ordered = ordered \<and> total_value (take k ordered) = total_value utxos"
      by (simp add: ordered_def total_value_sort)
  qed
  have srt: "sorted (map value' ordered)" and perm: "mset ordered = mset utxos"
    by (simp_all add: ordered_def)
  have pre: "prefix (take k ordered) ordered"
    by (rule take_is_prefix)
  have general: "case selectUtxosGreedy utxos target of
      (chosen, total_in) \<Rightarrow>
        sorted (map value' ordered) \<and>
        mset ordered = mset utxos \<and>
        prefix chosen ordered \<and>
        (utxos \<noteq> [] \<longrightarrow> chosen \<noteq> []) \<and>
        total_in = total_value chosen \<and>
        (\<forall>j. 0 < j \<and> j < length chosen \<longrightarrow> total_value (take j chosen) < target) \<and>
        (chosen \<noteq> ordered \<longrightarrow> target \<le> total_in) \<and>
        (total_value utxos < target \<longrightarrow>
           chosen = ordered \<and> total_in = total_value utxos)"
    unfolding sel prod.case
    using srt perm pre nonempty minimal early short by blast
  have example: "selectUtxosGreedy [ex_utxo ''a'' 1000, ex_utxo ''b'' 2000, ex_utxo ''c'' 5000] 3500 =
     ([ex_utxo ''a'' 1000, ex_utxo ''b'' 2000, ex_utxo ''c'' 5000], 8000)"
    by (simp add: selectUtxosGreedy_def ex_utxo_def)
  from general example show ?thesis unfolding ordered_def by blast
qed


theorem selectUtxosGreedy_witness:
  "total_value [ex_utxo ''a'' 100, ex_utxo ''b'' 200] < 1000 \<and>
   selectUtxosGreedy [ex_utxo ''a'' 100, ex_utxo ''b'' 200] 1000 =
     ([ex_utxo ''a'' 100, ex_utxo ''b'' 200], 300) \<and>
   fst (selectUtxosGreedy
          [ex_utxo ''x'' 5000, ex_utxo ''y'' 1000, ex_utxo ''z'' 2000, ex_utxo ''w'' 9000] 3500)
     \<noteq> sort_key value'
          [ex_utxo ''x'' 5000, ex_utxo ''y'' 1000, ex_utxo ''z'' 2000, ex_utxo ''w'' 9000] \<and>
   selectUtxosGreedy
     [ex_utxo ''x'' 5000, ex_utxo ''y'' 1000, ex_utxo ''z'' 2000, ex_utxo ''w'' 9000] 3500 =
     ([ex_utxo ''y'' 1000, ex_utxo ''z'' 2000, ex_utxo ''x'' 5000], 8000)"
  using selectUtxosGreedy_first_fit_ascending [of "[ex_utxo ''a'' 100, ex_utxo ''b'' 200]" 1000]
    selectUtxosGreedy_first_fit_ascending
      [of "[ex_utxo ''x'' 5000, ex_utxo ''y'' 1000, ex_utxo ''z'' 2000, ex_utxo ''w'' 9000]" 3500]
  by (simp add: selectUtxosGreedy_def ex_utxo_def total_value_def)

subsection \<open>The fee of the UTXO chain\<close>

lemma estimateTxVsize_formula: "estimateTxVsize n m = 68 * n + 31 * m + 10"
  by (simp add: estimateTxVsize_def VBYTE_PER_INPUT_def VBYTE_PER_OUTPUT_def
      TX_OVERHEAD_VBYTES_def)

lemma btc_fund_and_sign_unfold:
  "btc_fund_and_sign env fromAddress b amount utxos =
     (if btc_change env b amount utxos < 0
      then (BadRequest InsufficientFunds, FetchUtxos fromAddress # snd (btc_rate env b))
      else
        (case sign_psbt env (btc_draft env fromAddress b amount utxos) (btc_privateKeyWIF b) of
           None \<Rightarrow> (ServerError LibraryError,
                     (FetchUtxos fromAddress # snd (btc_rate env b))
                       @ [SignPsbt (btc_draft env fromAddress b amount utxos) (btc_privateKeyWIF b)])
         | Some hex \<Rightarrow>
             (case post_tx env hex of
                None \<Rightarrow> (ServerError ProviderError,
                          (FetchUtxos fromAddress # snd (btc_rate env b))
                            @ [SignPsbt (btc_draft env fromAddress b amount utxos)
                                 (btc_privateKeyWIF b), BroadcastTx hex])
              | Some tx \<Rightarrow>
                  (Ok \<lparr>sent_from = fromAddress, sent_to = btc_to b, amount_btc = amount,
                       amount_sats = btcToSats (btc_mul env) amount,
                       fee_sats = btc_fee env b amount utxos, sent_txid = tx\<rparr>,
                   (FetchUtxos fromAddress # snd (btc_rate env b))
                     @ [SignPsbt (btc_draft env fromAddress b amount utxos)
                          (btc_privateKeyWIF b), BroadcastTx hex]))))"
  by (simp add: btc_fund_and_sign_def btc_change_def btc_draft_def btc_fee_def
      btc_selection_def Let_def split: prod.splits option.splits)

lemma btc_rate_events: "set (snd (btc_rate env b)) \<subseteq> {FetchFeeRate}"
  by (auto simp: btc_rate_def split: option.splits)

lemma btc_send_funded:
  assumes "btc_amount b = Some amount" "amount \<noteq> 0" "btc_privateKeyWIF b \<noteq> []"
    "btc_to b \<noteq> []" "wif_address env (btc_privateKeyWIF b) = Some from"
    "get_utxos env from = Some utxos" "utxos \<noteq> []"
  shows "btc_send env from b = btc_fund_and_sign env from b amount utxos"
  using assms by (simp add: btc_send_def)

lemma btc_send_signs:
  assumes "SignPsbt d k \<in> set (snd (btc_send env from b))"
  shows "\<exists>amount utxos. btc_amount b = Some amount \<and> amount \<noteq> 0 \<and>
           btc_privateKeyWIF b \<noteq> [] \<and> btc_to b \<noteq> [] \<and>
           wif_address env (btc_privateKeyWIF b) = Some from \<and>
           get_utxos env from = Some utxos \<and> utxos \<noteq> [] \<and>
           0 \<le> btc_change env b amount utxos \<and>
           d = btc_draft env from b amount utxos \<and> k = btc_privateKeyWIF b"
proof -
  from assms obtain amount where a: "btc_amount b = Some amount"
    by (cases "btc_amount b") (auto simp: btc_send_def)
  from assms a have f: "amount \<noteq> 0" "btc_privateKeyWIF b \<noteq> []" "btc_to b \<noteq> []"
    by (auto simp: btc_send_def split: if_splits)
  from assms a f obtain addr where w: "wif_address env (btc_privateKeyWIF b) = Some addr"
    by (cases "wif_address env (btc_privateKeyWIF b)") (auto simp: btc_send_def)
  from assms a f w have eq: "addr = from"
    by (auto simp: btc_send_def split: if_splits)
  from assms a f w eq obtain utxos where u: "get_utxos env from = Some utxos"
    by (cases "get_utxos env from") (auto simp: btc_send_def)
  from assms a f w eq u have ne: "utxos \<noteq> []"
    by (auto simp: btc_send_def split: if_splits)
  have run: "btc_send env from b = btc_fund_and_sign env from b amount utxos"
    using a f w eq u ne by (simp add: btc_send_def)
  have noFee: "SignPsbt d k \<notin> set (snd (btc_rate env b))"
    using btc_rate_events [of env b] by auto
  from assms have "SignPsbt d k \<in> set (snd (btc_fund_and_sign env from b amount utxos))"
    by (simp add: run)
  then have "0 \<le> btc_change env b amount utxos \<and> d = btc_draft env from b amount utxos \<and>
      k = btc_privateKeyWIF b"
    using noFee
    by (auto simp: btc_fund_and_sign_unfold split: if_splits option.splits)
  with a f w eq u ne show ?thesis by blast
qed

lemma btc_send_Ok:
  assumes "btc_send env from b = (Ok sent, evs)"
  shows "\<exists>amount utxos. btc_amount b = Some amount \<and> amount \<noteq> 0 \<and>
           btc_privateKeyWIF b \<noteq> [] \<and> btc_to b \<noteq> [] \<and>
           wif_address env (btc_privateKeyWIF b) = Some from \<and>
           get_utxos env from = Some utxos \<and> utxos \<noteq> [] \<and>
           0 \<le> btc_change env b amount utxos \<and>
           amount_sats sent = btcToSats (btc_mul env) amount \<and>
           fee_sats sent = btc_fee env b amount utxos \<and>
           SignPsbt (btc_draft env from b amount utxos) (btc_privateKeyWIF b) \<in> set evs"
proof -
  from assms obtain amount where a: "btc_amount b = Some amount"
    by (cases "btc_amount b") (auto simp: btc_send_def)
  from assms a have f: "amount \<noteq> 0" "btc_privateKeyWIF b \<noteq> []" "btc_to b \<noteq> []"
    by (auto simp: btc_send_def split: if_splits)
  from assms a f obtain addr where w: "wif_address env (btc_privateKeyWIF b) = Some addr"
    by (cases "wif_address env (btc_privateKeyWIF b)") (auto simp: btc_send_def)
  from assms a f w have eq: "addr = from"
    by (auto simp: btc_send_def split: if_splits)
  from assms a f w eq obtain utxos where u: "get_utxos env from = Some utxos"
    by (cases "get_utxos env from") (auto simp: btc_send_def)
  from assms a f w eq u have ne: "utxos \<noteq> []"
    by (auto simp: btc_send_def split: if_splits)
  have run: "btc_fund_and_sign env from b amount utxos = (Ok sent, evs)"
    using assms a f w eq u ne by (simp add: btc_send_def)
  then have "0 \<le> btc_change env b amount utxos \<and>
      amount_sats sent = btcToSats (btc_mul env) amount \<and>
      fee_sats sent = btc_fee env b amount utxos \<and>
      SignPsbt (btc_draft env from b amount utxos) (btc_privateKeyWIF b) \<in> set evs"
    by (auto simp: btc_fund_and_sign_unfold split: if_splits option.splits)
  with a f w eq u ne show ?thesis by blast
qed

lemma selectUtxosGreedy_total:
  "snd (selectUtxosGreedy utxos target) = total_value (fst (selectUtxosGreedy utxos target))"
proof -
  obtain k where
    "greedy_loop (sort_key value' utxos) target [] 0 =
       ([] @ take k (sort_key value' utxos), 0 + total_value (take k (sort_key value' utxos)))"
    using greedy_loop_char [of "sort_key value' utxos" target "[]" 0] by blast
  then show ?thesis by (simp add: selectUtxosGreedy_def)
qed

lemma ex_btc_quarter_run:
  "btc_send ex_btc_env ''addr-B'' ex_btc_quarter =
     (Ok \<lparr>sent_from = ''addr-B'', sent_to = ''addr-C'', amount_btc = 1 / 4,
          amount_sats = 25000000, fee_sats = 2080, sent_txid = ''txid-1''\<rparr>,
      [FetchUtxos ''addr-B'', FetchFeeRate,
       SignPsbt \<lparr>inputs = [ex_utxo ''t3'' 10000000, ex_utxo ''t4'' 25000000],
                 outputs = [(''addr-C'', 25000000), (''addr-B'', 9997920)]\<rparr> ''wif-B'',
       BroadcastTx ''signed-hex''])"
  by (simp add: btc_send_def btc_fund_and_sign_def ex_btc_env_def ex_btc_quarter_def
      btc_rate_def fetchFeeRate_def btcToSats_def selectUtxosGreedy_def txFee_def
      estimateTxVsize_formula ex_utxo_def round_def)

lemma ex_btc_exact_run:
  "btc_send ex_btc_env ''addr-A'' ex_btc_exact =
     (Ok \<lparr>sent_from = ''addr-A'', sent_to = ''addr-C'', amount_btc = 1 / 2,
          amount_sats = 50000000, fee_sats = 1400, sent_txid = ''txid-1''\<rparr>,
      [FetchUtxos ''addr-A'',
       SignPsbt \<lparr>inputs = [ex_utxo ''t1'' 50001400],
                 outputs = [(''addr-C'', 50000000), (''addr-A'', 0)]\<rparr> ''wif-A'',
       BroadcastTx ''signed-hex''])"
  by (simp add: btc_send_def btc_fund_and_sign_def ex_btc_env_def ex_btc_exact_def
      btc_rate_def fetchFeeRate_def btcToSats_def selectUtxosGreedy_def txFee_def
      estimateTxVsize_formula ex_utxo_def)

lemma ex_btc_short_run:
  "btc_send ex_btc_env ''addr-B'' ex_btc_short =
     (BadRequest InsufficientFunds, [FetchUtxos ''addr-B''])"
  by (simp add: btc_send_def btc_fund_and_sign_def ex_btc_env_def ex_btc_short_def
      btc_rate_def fetchFeeRate_def btcToSats_def selectUtxosGreedy_def txFee_def
      estimateTxVsize_formula ex_utxo_def)

text \<open>
  C3 (as amended). For every number of inputs \<open>n\<close>, of outputs \<open>m\<close> and every fee rate \<open>r\<close>,
  the virtual size is \<open>68 n + 31 m + 10\<close> and the fee is the ceiling of the product of
  the virtual size and the rate as the runtime computes it, which is
  \<open>ceil((68 n + 31 m + 10) r)\<close> whenever that product is exact; the send route charges
  this fee for its selected inputs and two outputs. For 2 inputs and 2 outputs the
  virtual size is 208 (not 218) and the fee at rate 10 is 2080 (not 2180).
\<close>

theorem utxo_fee_formula:
  "estimateTxVsize n m = 68 * n + 31 * m + 10 \<and>
   txFee mul n m r = \<lceil>mul (real (68 * n + 31 * m + 10)) r\<rceil> \<and>
   (mul (real (68 * n + 31 * m + 10)) r = real (68 * n + 31 * m + 10) * r \<longrightarrow>
      txFee mul n m r = \<lceil>real (68 * n + 31 * m + 10) * r\<rceil>) \<and>
   estimateTxVsize 2 2 = 208 \<and>
   (mul 208 10 = 2080 \<longrightarrow> txFee mul 2 2 10 = 2080) \<and>
   (\<forall>sent evs. btc_send env from b = (Ok sent, evs) \<longrightarrow>
      (\<exists>amount utxos. btc_amount b = Some amount \<and> get_utxos env from = Some utxos \<and>
         fee_sats sent =
           txFee (btc_mul env) (length (fst (btc_selection env amount utxos))) 2
             (fst (btc_rate env b))))"
proof -
  have route: "\<forall>sent evs. btc_send env from b = (Ok sent, evs) \<longrightarrow>
      (\<exists>amount utxos. btc_amount b = Some amount \<and> get_utxos env from = Some utxos \<and>
         fee_sats sent =
           txFee (btc_mul env) (length (fst (btc_selection env amount utxos))) 2
             (fst (btc_rate env b)))"
  proof (intro allI impI)
    fix sent evs
    assume "btc_send env from b = (Ok sent, evs)"
    from btc_send_Ok [OF this] show "\<exists>amount utxos. btc_amount b = Some amount \<and>
        get_utxos env from = Some utxos \<and>
        fee_sats sent =
          txFee (btc_mul env) (length (fst (btc_selection env amount utxos))) 2
            (fst (btc_rate env b))"
      unfolding btc_fee_def by blast
  qed
  have "estimateTxVsize 2 2 = 208"
    by (simp add: estimateTxVsize_formula)
  moreover have "mul 208 10 = 2080 \<longrightarrow> txFee mul 2 2 10 = 2080"
    by (simp add: txFee_def estimateTxVsize_formula)
  ultimately show ?thesis
    using route by (simp add: txFee_def estimateTxVsize_formula)
qed

theorem utxo_fee_formula_witness:
  "(208::real) * 10 = 2080 \<and> txFee (\<lambda>x y. x * y) 2 2 10 = 2080 \<and>
   (\<exists>sent evs. btc_send ex_btc_env ''addr-B'' ex_btc_quarter = (Ok sent, evs) \<and>
      fee_sats sent = txFee (\<lambda>x y. x * y) 2 2 10)"
  using utxo_fee_formula [of 2 2 "\<lambda>x y. x * y" 10 ex_btc_env "''addr-B''" ex_btc_quarter]
    ex_btc_quarter_run
  by simp

text \<open>
  The claim's figures fail on the code: \<open>68 * 2 + 31 * 2 + 10\<close> is 208, and the fee at
  rate 10 is 2080.
\<close>

theorem utxo_fee_example_counterexample:
  "estimateTxVsize 2 2 \<noteq> 218 \<and> txFee (\<lambda>x y. x * y) 2 2 10 \<noteq> 2180 \<and>
   estimateTxVsize 2 2 = 208 \<and> txFee (\<lambda>x y. x * y) 2 2 10 = 2080"
  by (simp add: txFee_def estimateTxVsize_formula)

subsection \<open>Funds check and change output of the send route\<close>

text \<open>
  Every draft the send route hands to signing has the selected outputs as inputs and
  exactly two outputs: the requested amount to the recipient and the change
  \<open>sum(inputs) - amount - fee\<close> to the sender's address. The change is never negative,
  so \<open>sum(inputs) = sum(outputs) + fee\<close>. When the selected inputs are worth less than
  amount plus fee, the route answers \<open>insufficient funds\<close> after the lookups, and
  nothing is signed or broadcast.
\<close>

theorem btc_send_funds_and_change:
  "(\<forall>d k. SignPsbt d k \<in> set (snd (btc_send env from b)) \<longrightarrow>
      (\<exists>amount utxos. btc_amount b = Some amount \<and> get_utxos env from = Some utxos \<and>
         inputs d = fst (btc_selection env amount utxos) \<and>
         outputs d = [(btc_to b, btcToSats (btc_mul env) amount),
                      (from, btc_change env b amount utxos)] \<and>
         btc_change env b amount utxos =
           total_value (inputs d) - btcToSats (btc_mul env) amount - btc_fee env b amount utxos \<and>
         0 \<le> btc_change env b amount utxos \<and>
         total_value (inputs d) = (\<Sum>out\<leftarrow>outputs d. snd out) + btc_fee env b amount utxos)) \<and>
   (btc_amount b = Some amount \<and> amount \<noteq> 0 \<and> btc_privateKeyWIF b \<noteq> [] \<and> btc_to b \<noteq> [] \<and>
    wif_address env (btc_privateKeyWIF b) = Some from \<and>
    get_utxos env from = Some utxos \<and> utxos \<noteq> [] \<and>
    btc_change env b amount utxos < 0 \<longrightarrow>
      btc_send env from b =
        (BadRequest InsufficientFunds, FetchUtxos from # snd (btc_rate env b)) \<and>
      (\<forall>e \<in> set (snd (btc_send env from b)). e = FetchUtxos from \<or> e = FetchFeeRate))"
proof (intro conjI allI impI)
  fix d k
  assume "SignPsbt d k \<in> set (snd (btc_send env from b))"
  from btc_send_signs [OF this]
  obtain amount utxos where r: "btc_amount b = Some amount" "get_utxos env from = Some utxos"
    "0 \<le> btc_change env b amount utxos" "d = btc_draft env from b amount utxos"
    by blast
  have tot: "total_value (inputs d) = snd (btc_selection env amount utxos)"
    using r(4) by (simp add: btc_draft_def btc_selection_def selectUtxosGreedy_total)
  have "inputs d = fst (btc_selection env amount utxos) \<and>
      outputs d = [(btc_to b, btcToSats (btc_mul env) amount),
                   (from, btc_change env b amount utxos)] \<and>
      btc_change env b amount utxos =
        total_value (inputs d) - btcToSats (btc_mul env) amount - btc_fee env b amount utxos \<and>
      0 \<le> btc_change env b amount utxos \<and>
      total_value (inputs d) = (\<Sum>out\<leftarrow>outputs d. snd out) + btc_fee env b amount utxos"
    using r(3,4) tot by (simp add: btc_draft_def btc_change_def)
  with r(1,2) show "\<exists>amount utxos. btc_amount b = Some amount \<and> get_utxos env from = Some utxos \<and>
         inputs d = fst (btc_selection env amount utxos) \<and>
         outputs d = [(btc_to b, btcToSats (btc_mul env) amount),
                      (from, btc_change env b amount utxos)] \<and>
         btc_change env b amount utxos =
           total_value (inputs d) - btcToSats (btc_mul env) amount - btc_fee env b amount utxos \<and>
         0 \<le> btc_change env b amount utxos \<and>
         total_value (inputs d) = (\<Sum>out\<leftarrow>outputs d. snd out) + btc_fee env b amount utxos"
    by blast
next
  assume h: "btc_amount b = Some amount \<and> amount \<noteq> 0 \<and> btc_privateKeyWIF b \<noteq> [] \<and>
    btc_to b \<noteq> [] \<and> wif_address env (btc_privateKeyWIF b) = Some from \<and>
    get_utxos env from = Some utxos \<and> utxos \<noteq> [] \<and> btc_change env b amount utxos < 0"
  then have run: "btc_send env from b = btc_fund_and_sign env from b amount utxos"
    by (intro btc_send_funded) simp_all
  with h show short: "btc_send env from b =
      (BadRequest InsufficientFunds, FetchUtxos from # snd (btc_rate env b))"
    by (simp add: btc_fund_and_sign_unfold)
  show "\<forall>e \<in> set (snd (btc_send env from b)). e = FetchUtxos from \<or> e = FetchFeeRate"
    using btc_rate_events [of env b] by (auto simp: short)
qed

theorem btc_send_funds_and_change_witness:
  "SignPsbt \<lparr>inputs = [ex_utxo ''t3'' 10000000, ex_utxo ''t4'' 25000000],
             outputs = [(''addr-C'', 25000000), (''addr-B'', 9997920)]\<rparr> ''wif-B''
     \<in> set (snd (btc_send ex_btc_env ''addr-B'' ex_btc_quarter)) \<and>
   btc_change ex_btc_env ex_btc_quarter (1 / 4)
     [ex_utxo ''t2'' 30000000, ex_utxo ''t3'' 10000000, ex_utxo ''t4'' 25000000] = 9997920 \<and>
   btc_fee ex_btc_env ex_btc_quarter (1 / 4)
     [ex_utxo ''t2'' 30000000, ex_utxo ''t3'' 10000000, ex_utxo ''t4'' 25000000] = 2080 \<and>
   btc_change ex_btc_env ex_btc_short (3 / 4)
     [ex_utxo ''t2'' 30000000, ex_utxo ''t3'' 10000000, ex_utxo ''t4'' 25000000] < 0 \<and>
   btc_send ex_btc_env ''addr-B'' ex_btc_short =
     (BadRequest InsufficientFunds, [FetchUtxos ''addr-B''])"
proof -
  let ?us = "[ex_utxo ''t2'' 30000000, ex_utxo ''t3'' 10000000, ex_utxo ''t4'' 25000000]"
  let ?d = "\<lparr>inputs = [ex_utxo ''t3'' 10000000, ex_utxo ''t4'' 25000000],
             outputs = [(''addr-C'', 25000000), (''addr-B'', 9997920)]\<rparr>"
  have signed: "SignPsbt ?d ''wif-B'' \<in> set (snd (btc_send ex_btc_env ''addr-B'' ex_btc_quarter))"
    by (simp add: ex_btc_quarter_run)
  have fee: "btc_fee ex_btc_env ex_btc_quarter (1 / 4) ?us = 2080"
    by (simp add: btc_fee_def btc_selection_def ex_btc_env_def ex_btc_quarter_def btc_rate_def
        fetchFeeRate_def btcToSats_def selectUtxosGreedy_def txFee_def estimateTxVsize_formula
        ex_utxo_def round_def)
  have change: "btc_change ex_btc_env ex_btc_quarter (1 / 4) ?us = 9997920"
    unfolding btc_change_def fee
    by (simp add: btc_selection_def ex_btc_env_def btcToSats_def selectUtxosGreedy_def
        ex_utxo_def)
  have fee2: "btc_fee ex_btc_env ex_btc_short (3 / 4) ?us = 2760"
    by (simp add: btc_fee_def btc_selection_def ex_btc_env_def ex_btc_short_def btc_rate_def
        btcToSats_def selectUtxosGreedy_def txFee_def estimateTxVsize_formula ex_utxo_def)
  have short: "btc_change ex_btc_env ex_btc_short (3 / 4) ?us < 0"
    unfolding btc_change_def fee2
    by (simp add: btc_selection_def ex_btc_env_def btcToSats_def selectUtxosGreedy_def
        ex_utxo_def)
  have pre: "btc_amount ex_btc_short = Some (3 / 4) \<and> (3 / 4 :: real) \<noteq> 0 \<and>
      btc_privateKeyWIF ex_btc_short \<noteq> [] \<and> btc_to ex_btc_short \<noteq> [] \<and>
      wif_address ex_btc_env (btc_privateKeyWIF ex_btc_short) = Some ''addr-B'' \<and>
      get_utxos ex_btc_env ''addr-B'' = Some ?us \<and> ?us \<noteq> []"
    by (simp add: ex_btc_short_def ex_btc_env_def)
  have rate: "snd (btc_rate ex_btc_env ex_btc_short) = []"
    by (simp add: btc_rate_def ex_btc_short_def)
  from btc_send_funds_and_change
    [of ex_btc_env "''addr-B''" ex_btc_short "3 / 4" ?us]
  have "btc_send ex_btc_env ''addr-B'' ex_btc_short =
      (BadRequest InsufficientFunds, [FetchUtxos ''addr-B''])"
    using pre short rate by simp
  with signed fee change short show ?thesis by blast
qed



subsection \<open>The signer check of the send routes\<close>

text \<open>
  The three routers that sign locally perform an effect only when the address of the
  supplied key is the declared sender, and answer \<open>SignerMismatch\<close> with no effect
  otherwise. The account chain compares the two addresses without regard to the case
  of the hex digits.
\<close>

lemma btc_send_signer_check:
  "(snd (btc_send env from b) \<noteq> [] \<longrightarrow> wif_address env (btc_privateKeyWIF b) = Some from) \<and>
   (btc_amount b = Some amount \<and> amount \<noteq> 0 \<and> btc_privateKeyWIF b \<noteq> [] \<and> btc_to b \<noteq> [] \<and>
    wif_address env (btc_privateKeyWIF b) = Some a \<and> a \<noteq> from \<longrightarrow>
      btc_send env from b = (BadRequest SignerMismatch, []))"
  by (auto simp: btc_send_def split: option.splits if_splits)

lemma sol_send_signer_check:
  "(snd (sol_send env from b) \<noteq> [] \<longrightarrow>
      (\<exists>kp. keypairFromPrivateKeyInput (library env) (sol_privateKey b) = Inr kp \<and>
            bs58_encode (library env) (publicKey kp) = from)) \<and>
   (sol_amount b = Some amount \<and> amount \<noteq> 0 \<and> \<not> falsy (sol_privateKey b) \<and> sol_to b \<noteq> [] \<and>
    keypairFromPrivateKeyInput (library env) (sol_privateKey b) = Inr kp \<and>
    bs58_encode (library env) (publicKey kp) \<noteq> from \<longrightarrow>
      sol_send env from b = (BadRequest SignerMismatch, []))"
  by (auto simp: sol_send_def Let_def split: option.splits if_splits sum.splits)

lemma evm_send_signer_check:
  "(snd (evm_send env from b) \<noteq> [] \<longrightarrow>
      (\<exists>a. loadWalletFromPrivateKey env (evm_privateKey b) (chain_of b) = Inr a \<and>
           toLowerCase a = toLowerCase from)) \<and>
   (is_address env from \<and> is_address env (evm_to b) \<and> evm_privateKey b \<noteq> [] \<and>
    loadWalletFromPrivateKey env (evm_privateKey b) (chain_of b) = Inr a \<and>
    toLowerCase a \<noteq> toLowerCase from \<longrightarrow>
      evm_send env from b = (BadRequest SignerMismatch, []))"
  by (auto simp: evm_send_def split: option.splits if_splits sum.splits)

text \<open>
  The send route of the Tatum router derives no address: every request with its four
  fields present is posted to the provider with the declared address and the key.
\<close>

lemma tatum_send_forwards:
  "tatum_amount b = Some amount \<and> amount \<noteq> 0 \<and> from \<noteq> [] \<and> tatum_to b \<noteq> [] \<and>
   tatum_privateKey b \<noteq> [] \<longrightarrow>
     snd (tatum_send env from b) =
       [PostTransaction \<lparr>pay_address = from, pay_privateKey = tatum_privateKey b,
                          pay_to = tatum_to b, pay_value = amount\<rparr>] \<and>
     fst (tatum_send env from b) \<noteq> BadRequest SignerMismatch"
  by (auto simp: tatum_send_def Let_def split: option.splits)

text \<open>
  C1. The claim asks every send route to answer \<open>SignerMismatch\<close>, before any provider
  call, when the supplied key does not belong to the declared sender. The Blockstream
  router does so for the key of the second wallet and the address of the first; the
  Tatum router, given the same sender and key, posts both to the provider and reports
  a success.
\<close>

theorem tatum_send_skips_signer_check:
  "wif_address ex_btc_env ''wif-B'' = Some ''addr-B'' \<and>
   btc_send ex_btc_env ''addr-A'' ex_btc_quarter = (BadRequest SignerMismatch, []) \<and>
   tatum_send ex_tatum_env ''addr-A'' ex_tatum_body =
     (Ok \<lparr>tatum_sent_from = ''addr-A'', tatum_sent_to = ''addr-C'',
          tatum_sent_amount = 1 / 4, tatum_txId = ''txid-2''\<rparr>,
      [PostTransaction \<lparr>pay_address = ''addr-A'', pay_privateKey = ''wif-B'',
                         pay_to = ''addr-C'', pay_value = 1 / 4\<rparr>])"
  by (simp add: btc_send_def ex_btc_env_def ex_btc_quarter_def tatum_send_def
      ex_tatum_env_def ex_tatum_body_def)

subsection \<open>The maximum amount of the account chain\<close>

lemma evm_send_funded:
  assumes "is_address env from" "is_address env (evm_to b)" "evm_privateKey b \<noteq> []"
    "loadWalletFromPrivateKey env (evm_privateKey b) (chain_of b) = Inr a"
    "toLowerCase a = toLowerCase from"
    "get_balance env (chain_of b) from = Some B"
  shows "evm_send env from b =
    (if B \<le> 0 then (BadRequest InsufficientBalance, [GetBalance from])
     else case get_fee_data env (chain_of b) of
            None \<Rightarrow> (ServerError ProviderError, [GetBalance from, GetFeeData])
          | Some feeData \<Rightarrow> evm_gas_and_send env from b B feeData)"
  using assms by (simp add: evm_send_def)

text \<open>
  C5. For a send of the account chain whose amount is the maximum sentinel (the string
  \<^verbatim>\<open>'max'\<close>, or an absent or falsy amount), with the fetched balance \<open>B\<close> and the gas
  cost \<open>G\<close> computed as the gas estimate times the quoted price: when \<open>B > G\<close> the
  transaction handed to the wallet has the value \<open>B - G\<close>, which is also the amount
  reported; when \<open>B \<le> G\<close> the reply is a funds error (\<open>balance too low for gas\<close>, or
  \<open>insufficient balance\<close> when the balance is not positive, in which case the gas cost
  is not even requested) and the wallet is never asked to sign.
\<close>

theorem evm_send_max_amount:
  "is_address env from \<and> is_address env (evm_to b) \<and> evm_privateKey b \<noteq> [] \<and>
   loadWalletFromPrivateKey env (evm_privateKey b) (chain_of b) = Inr a \<and>
   toLowerCase a = toLowerCase from \<and>
   get_balance env (chain_of b) from = Some B \<and>
   get_fee_data env (chain_of b) = Some fd \<and>
   evm_gasLimit b = JNull \<and>
   estimate_gas env (chain_of b) from (evm_to b) = Some gas \<and>
   (case maxFeePerGas fd of Some p \<Rightarrow> Some p | None \<Rightarrow> gasPrice fd) = Some price \<and>
   is_max (evm_amount b) \<and> G = gas * price
   \<longrightarrow>
     (0 < B \<and> G < B \<longrightarrow>
        evm_send env from b =
          (let tx = \<lparr>tx_to = evm_to b, tx_value = B - G, tx_gasLimit = gas,
                     tx_maxFeePerGas = maxFeePerGas fd,
                     tx_maxPriorityFeePerGas = maxPriorityFeePerGas fd\<rparr>;
               events = [GetBalance from, GetFeeData, EstimateGas from (evm_to b), SignAndSend tx]
           in case send_transaction env (evm_privateKey b) (chain_of b) tx of
                None \<Rightarrow> (ServerError ProviderError, events)
              | Some h \<Rightarrow>
                  (Ok \<lparr>evm_sent_chain = chain_of b, evm_sent_from = from,
                       evm_sent_to = evm_to b, sentAmount = B - G, gasUsed = gas,
                       gasCost = G, txHash = h\<rparr>, events))) \<and>
     (0 < B \<and> B \<le> G \<longrightarrow>
        evm_send env from b =
          (BadRequest BalanceTooLowForGas,
           [GetBalance from, GetFeeData, EstimateGas from (evm_to b)])) \<and>
     (B \<le> 0 \<longrightarrow>
        evm_send env from b = (BadRequest InsufficientBalance, [GetBalance from])) \<and>
     (B \<le> G \<or> B \<le> 0 \<longrightarrow>
        is_funds_error (fst (evm_send env from b)) \<and>
        (\<forall>tx. SignAndSend tx \<notin> set (snd (evm_send env from b))))"
proof (intro impI)
  assume h: "is_address env from \<and> is_address env (evm_to b) \<and> evm_privateKey b \<noteq> [] \<and>
   loadWalletFromPrivateKey env (evm_privateKey b) (chain_of b) = Inr a \<and>
   toLowerCase a = toLowerCase from \<and>
   get_balance env (chain_of b) from = Some B \<and>
   get_fee_data env (chain_of b) = Some fd \<and>
   evm_gasLimit b = JNull \<and>
   estimate_gas env (chain_of b) from (evm_to b) = Some gas \<and>
   (case maxFeePerGas fd of Some p \<Rightarrow> Some p | None \<Rightarrow> gasPrice fd) = Some price \<and>
   is_max (evm_amount b) \<and> G = gas * price"
  then have run: "evm_send env from b =
      (if B \<le> 0 then (BadRequest InsufficientBalance, [GetBalance from])
       else evm_gas_and_send env from b B fd)"
    using evm_send_funded [of env "from" b a B] by simp
  have gas: "evm_gas_and_send env from b B fd =
      evm_amount_and_send env from b B fd gas G
        [GetBalance from, GetFeeData, EstimateGas from (evm_to b)]"
    using h by (simp add: evm_gas_and_send_def)
  have rich: "0 < B \<and> G < B \<longrightarrow>
        evm_send env from b =
          (let tx = \<lparr>tx_to = evm_to b, tx_value = B - G, tx_gasLimit = gas,
                     tx_maxFeePerGas = maxFeePerGas fd,
                     tx_maxPriorityFeePerGas = maxPriorityFeePerGas fd\<rparr>;
               events = [GetBalance from, GetFeeData, EstimateGas from (evm_to b), SignAndSend tx]
           in case send_transaction env (evm_privateKey b) (chain_of b) tx of
                None \<Rightarrow> (ServerError ProviderError, events)
              | Some h \<Rightarrow>
                  (Ok \<lparr>evm_sent_chain = chain_of b, evm_sent_from = from,
                       evm_sent_to = evm_to b, sentAmount = B - G, gasUsed = gas,
                       gasCost = G, txHash = h\<rparr>, events))"
    using h by (simp add: run gas evm_amount_and_send_def Let_def split: option.splits)
  have poor: "0 < B \<and> B \<le> G \<longrightarrow>
        evm_send env from b =
          (BadRequest BalanceTooLowForGas,
           [GetBalance from, GetFeeData, EstimateGas from (evm_to b)])"
    using h by (simp add: run gas evm_amount_and_send_def Let_def)
  have broke: "B \<le> 0 \<longrightarrow>
        evm_send env from b = (BadRequest InsufficientBalance, [GetBalance from])"
    by (simp add: run)
  have funds: "B \<le> G \<or> B \<le> 0 \<longrightarrow>
        is_funds_error (fst (evm_send env from b)) \<and>
        (\<forall>tx. SignAndSend tx \<notin> set (snd (evm_send env from b)))"
    using poor broke by (cases "B \<le> 0") auto
  from rich poor broke funds show
    "(0 < B \<and> G < B \<longrightarrow>
        evm_send env from b =
          (let tx = \<lparr>tx_to = evm_to b, tx_value = B - G, tx_gasLimit = gas,
                     tx_maxFeePerGas = maxFeePerGas fd,
                     tx_maxPriorityFeePerGas = maxPriorityFeePerGas fd\<rparr>;
               events = [GetBalance from, GetFeeData, EstimateGas from (evm_to b), SignAndSend tx]
           in case send_transaction env (evm_privateKey b) (chain_of b) tx of
                None \<Rightarrow> (ServerError ProviderError, events)
              | Some h \<Rightarrow>
                  (Ok \<lparr>evm_sent_chain = chain_of b, evm_sent_from = from,
                       evm_sent_to = evm_to b, sentAmount = B - G, gasUsed = gas,
                       gasCost = G, txHash = h\<rparr>, events))) \<and>
     (0 < B \<and> B \<le> G \<longrightarrow>
        evm_send env from b =
          (BadRequest BalanceTooLowForGas,
           [GetBalance from, GetFeeData, EstimateGas from (evm_to b)])) \<and>
     (B \<le> 0 \<longrightarrow>
        evm_send env from b = (BadRequest InsufficientBalance, [GetBalance from])) \<and>
     (B \<le> G \<or> B \<le> 0 \<longrightarrow>
        is_funds_error (fst (evm_send env from b)) \<and>
        (\<forall>tx. SignAndSend tx \<notin> set (snd (evm_send env from b))))"
    by blast
qed

lemma ex_lower: "toLowerCase ''0xAB12'' = ''0xab12''" "toLowerCase ''0xab12'' = ''0xab12''"
  by (simp_all add: toLowerCase_def lower_char_def)

theorem evm_send_max_amount_witness:
  "evm_send ex_evm_env ''0xab12'' ex_evm_max =
     (Ok \<lparr>evm_sent_chain = ''ethereum'', evm_sent_from = ''0xab12'', evm_sent_to = ''0xcd34'',
          sentAmount = 853000, gasUsed = 21000, gasCost = 147000, txHash = ''0xhash''\<rparr>,
      [GetBalance ''0xab12'', GetFeeData, EstimateGas ''0xab12'' ''0xcd34'',
       SignAndSend \<lparr>tx_to = ''0xcd34'', tx_value = 853000, tx_gasLimit = 21000,
                    tx_maxFeePerGas = None, tx_maxPriorityFeePerGas = None\<rparr>]) \<and>
   evm_send ex_evm_poor ''0xab12'' ex_evm_max =
     (BadRequest BalanceTooLowForGas,
      [GetBalance ''0xab12'', GetFeeData, EstimateGas ''0xab12'' ''0xcd34''])"
proof -
  let ?fd = "\<lparr>gasPrice = Some 7, maxFeePerGas = None, maxPriorityFeePerGas = None\<rparr>"
  have pre: "is_address ex_evm_env ''0xab12'' \<and> is_address ex_evm_env (evm_to ex_evm_max) \<and>
      evm_privateKey ex_evm_max \<noteq> [] \<and>
      loadWalletFromPrivateKey ex_evm_env (evm_privateKey ex_evm_max) (chain_of ex_evm_max)
        = Inr ''0xAB12'' \<and>
      toLowerCase ''0xAB12'' = toLowerCase ''0xab12'' \<and>
      get_balance ex_evm_env (chain_of ex_evm_max) ''0xab12'' = Some 1000000 \<and>
      get_fee_data ex_evm_env (chain_of ex_evm_max) = Some ?fd \<and>
      evm_gasLimit ex_evm_max = JNull \<and>
      estimate_gas ex_evm_env (chain_of ex_evm_max) ''0xab12'' (evm_to ex_evm_max) = Some 21000 \<and>
      (case maxFeePerGas ?fd of Some p \<Rightarrow> Some p | None \<Rightarrow> gasPrice ?fd) = Some 7 \<and>
      is_max (evm_amount ex_evm_max) \<and> (147000::int) = 21000 * 7"
    by (simp add: ex_evm_env_def ex_evm_max_def loadWalletFromPrivateKey_def chain_of_def
        CHAINS_def is_max_def ex_lower)
  have pre2: "is_address ex_evm_poor ''0xab12'' \<and> is_address ex_evm_poor (evm_to ex_evm_max) \<and>
      evm_privateKey ex_evm_max \<noteq> [] \<and>
      loadWalletFromPrivateKey ex_evm_poor (evm_privateKey ex_evm_max) (chain_of ex_evm_max)
        = Inr ''0xAB12'' \<and>
      toLowerCase ''0xAB12'' = toLowerCase ''0xab12'' \<and>
      get_balance ex_evm_poor (chain_of ex_evm_max) ''0xab12'' = Some 100000 \<and>
      get_fee_data ex_evm_poor (chain_of ex_evm_max) = Some ?fd \<and>
      evm_gasLimit ex_evm_max = JNull \<and>
      estimate_gas ex_evm_poor (chain_of ex_evm_max) ''0xab12'' (evm_to ex_evm_max) = Some 21000 \<and>
      (case maxFeePerGas ?fd of Some p \<Rightarrow> Some p | None \<Rightarrow> gasPrice ?fd) = Some 7 \<and>
      is_max (evm_amount ex_evm_max) \<and> (147000::int) = 21000 * 7"
    by (simp add: ex_evm_poor_def ex_evm_env_def ex_evm_max_def loadWalletFromPrivateKey_def
        chain_of_def CHAINS_def is_max_def ex_lower)
  have sends: "send_transaction ex_evm_env (evm_privateKey ex_evm_max) (chain_of ex_evm_max)
      \<lparr>tx_to = evm_to ex_evm_max, tx_value = 1000000 - 147000, tx_gasLimit = 21000,
        tx_maxFeePerGas = maxFeePerGas ?fd,
        tx_maxPriorityFeePerGas = maxPriorityFeePerGas ?fd\<rparr> = Some ''0xhash''"
    by (simp add: ex_evm_env_def)
  note rich_inst = evm_send_max_amount
    [of ex_evm_env "''0xab12''" ex_evm_max "''0xAB12''" 1000000 ?fd 21000 7 147000,
     THEN mp, OF pre, THEN conjunct1, THEN mp]
  have "evm_send ex_evm_env ''0xab12'' ex_evm_max =
      (let tx = \<lparr>tx_to = evm_to ex_evm_max, tx_value = 1000000 - 147000, tx_gasLimit = 21000,
                 tx_maxFeePerGas = maxFeePerGas ?fd,
                 tx_maxPriorityFeePerGas = maxPriorityFeePerGas ?fd\<rparr>;
           events = [GetBalance ''0xab12'', GetFeeData, EstimateGas ''0xab12'' (evm_to ex_evm_max),
                     SignAndSend tx]
       in case send_transaction ex_evm_env (evm_privateKey ex_evm_max) (chain_of ex_evm_max) tx of
            None \<Rightarrow> (ServerError ProviderError, events)
          | Some h \<Rightarrow>
              (Ok \<lparr>evm_sent_chain = chain_of ex_evm_max, evm_sent_from = ''0xab12'',
                   evm_sent_to = evm_to ex_evm_max, sentAmount = 1000000 - 147000,
                   gasUsed = 21000, gasCost = 147000, txHash = h\<rparr>, events))"
    by (rule rich_inst) simp
  then have rich: "evm_send ex_evm_env ''0xab12'' ex_evm_max =
      (Ok \<lparr>evm_sent_chain = ''ethereum'', evm_sent_from = ''0xab12'', evm_sent_to = ''0xcd34'',
          sentAmount = 853000, gasUsed = 21000, gasCost = 147000, txHash = ''0xhash''\<rparr>,
      [GetBalance ''0xab12'', GetFeeData, EstimateGas ''0xab12'' ''0xcd34'',
       SignAndSend \<lparr>tx_to = ''0xcd34'', tx_value = 853000, tx_gasLimit = 21000,
                    tx_maxFeePerGas = None, tx_maxPriorityFeePerGas = None\<rparr>])"
    unfolding Let_def sends by (simp add: ex_evm_max_def chain_of_def)
  note poor_inst = evm_send_max_amount
    [of ex_evm_poor "''0xab12''" ex_evm_max "''0xAB12''" 100000 ?fd 21000 7 147000,
     THEN mp, OF pre2, THEN conjunct2, THEN conjunct1, THEN mp]
  have "evm_send ex_evm_poor ''0xab12'' ex_evm_max =
     (BadRequest BalanceTooLowForGas,
      [GetBalance ''0xab12'', GetFeeData, EstimateGas ''0xab12'' (evm_to ex_evm_max)])"
    by (rule poor_inst) simp
  then have poor: "evm_send ex_evm_poor ''0xab12'' ex_evm_max =
     (BadRequest BalanceTooLowForGas,
      [GetBalance ''0xab12'', GetFeeData, EstimateGas ''0xab12'' ''0xcd34''])"
    by (simp add: ex_evm_max_def)
  from rich poor show ?thesis by blast
qed

subsection \<open>The Cardano send routes\<close>

lemma ada_fund_and_sign_events:
  "\<exists>rest. snd (ada_fund_and_sign env loop buffer b amount amountLovelace keys) =
     DeriveKeys (send_mnemonic b) # FetchAdaUtxos (ada_address keys) # rest"
  by (auto simp: ada_fund_and_sign_def Let_def split: option.splits prod.splits)

lemma ada_fund_and_sign_builds:
  assumes "BuildAndSign d \<in> set (snd (ada_fund_and_sign env loop buffer b amount amountLovelace keys))"
  shows "\<exists>utxos. utxos_of env (ada_address keys) = Some utxos \<and> utxos \<noteq> [] \<and>
           d = \<lparr>draft_output = (ada_to b, amountLovelace),
                draft_inputs = fst (loop utxos (amountLovelace + buffer) [] 0),
                draft_change_address = ada_address keys\<rparr>"
  using assms
  by (auto simp: ada_fund_and_sign_def Let_def split: option.splits prod.splits if_splits)

lemma ada_send_builds:
  assumes "BuildAndSign d \<in> set (snd (ada_send env b))"
  shows "\<exists>amount keys utxos. ada_amount b = Some amount \<and>
           1000000 \<le> \<lfloor>ada_mul env amount 1000000\<rfloor> \<and>
           deriveKeysFromMnemonic (ada_library env) (ada_network env) (send_mnemonic b) = Inr keys \<and>
           utxos_of env (ada_address keys) = Some utxos \<and> utxos \<noteq> [] \<and>
           d = \<lparr>draft_output = (ada_to b, \<lfloor>ada_mul env amount 1000000\<rfloor>),
                draft_inputs =
                  fst (input_loop utxos (\<lfloor>ada_mul env amount 1000000\<rfloor> + 3000000) [] 0),
                draft_change_address = ada_address keys\<rparr>"
proof -
  from assms obtain amount where a: "ada_amount b = Some amount"
    by (cases "ada_amount b") (auto simp: ada_send_def)
  from assms a have big: "1000000 \<le> \<lfloor>ada_mul env amount 1000000\<rfloor>"
    by (auto simp: ada_send_def Let_def split: if_splits)
  from assms a big obtain keys where
    k: "deriveKeysFromMnemonic (ada_library env) (ada_network env) (send_mnemonic b) = Inr keys"
    by (cases "deriveKeysFromMnemonic (ada_library env) (ada_network env) (send_mnemonic b)")
      (auto simp: ada_send_def Let_def split: if_splits)
  from assms a big k have
    "BuildAndSign d \<in> set (snd (ada_fund_and_sign env input_loop 3000000 b amount
        \<lfloor>ada_mul env amount 1000000\<rfloor> keys))"
    by (auto simp: ada_send_def Let_def split: if_splits)
  from ada_fund_and_sign_builds [OF this] a big k show ?thesis by blast
qed

lemma ada_send2_builds:
  assumes "BuildAndSign d \<in> set (snd (ada_send2 env b))"
  shows "\<exists>amount keys utxos. ada_amount b = Some amount \<and>
           deriveKeysFromMnemonic2 (ada_library env) (ada_network env) (send_mnemonic b) = Inr keys \<and>
           utxos_of env (ada_address keys) = Some utxos \<and> utxos \<noteq> [] \<and>
           d = \<lparr>draft_output = (ada_to b, \<lfloor>ada_mul env amount 1000000\<rfloor>),
                draft_inputs =
                  fst (input_loop2 utxos (\<lfloor>ada_mul env amount 1000000\<rfloor> + 2000000) [] 0),
                draft_change_address = ada_address keys\<rparr>"
proof -
  from assms obtain amount where a: "ada_amount b = Some amount"
    by (cases "ada_amount b") (auto simp: ada_send2_def)
  from assms a obtain keys where
    k: "deriveKeysFromMnemonic2 (ada_library env) (ada_network env) (send_mnemonic b) = Inr keys"
    by (cases "deriveKeysFromMnemonic2 (ada_library env) (ada_network env) (send_mnemonic b)")
      (auto simp: ada_send2_def Let_def split: if_splits)
  from assms a k have
    "BuildAndSign d \<in> set (snd (ada_fund_and_sign env input_loop2 2000000 b amount
        \<lfloor>ada_mul env amount 1000000\<rfloor> keys))"
    by (auto simp: ada_send2_def Let_def split: if_splits)
  from ada_fund_and_sign_builds [OF this] a k show ?thesis by blast
qed

lemma ada_send_inputs:
  assumes "BuildAndSign d \<in> set (snd (ada_send env b))"
  shows "\<exists>amount (keys :: ada_keys) utxos. ada_amount b = Some amount \<and>
           utxos_of env (ada_address keys) = Some utxos \<and>
           draft_output d = (ada_to b, \<lfloor>ada_mul env amount 1000000\<rfloor>) \<and>
           draft_inputs d =
             fst (input_loop utxos (\<lfloor>ada_mul env amount 1000000\<rfloor> + 3000000) [] 0)"
proof -
  from ada_send_builds [OF assms] show ?thesis
    apply (elim exE conjE)
    subgoal for amount keys utxos
      by (intro exI [of _ amount] exI [of _ keys] exI [of _ utxos]) simp
    done
qed

lemma ada_send2_inputs:
  assumes "BuildAndSign d \<in> set (snd (ada_send2 env b))"
  shows "\<exists>amount (keys :: ada_keys) utxos. ada_amount b = Some amount \<and>
           utxos_of env (ada_address keys) = Some utxos \<and>
           draft_output d = (ada_to b, \<lfloor>ada_mul env amount 1000000\<rfloor>) \<and>
           draft_inputs d =
             fst (input_loop2 utxos (\<lfloor>ada_mul env amount 1000000\<rfloor> + 2000000) [] 0)"
proof -
  from ada_send2_builds [OF assms] show ?thesis
    apply (elim exE conjE)
    subgoal for amount keys utxos
      by (intro exI [of _ amount] exI [of _ keys] exI [of _ utxos]) simp
    done
qed

text \<open>
  C9. The send route of cardano-server.mjs answers every request whose amount in
  lovelace, \<open>floor(amount * 1000000)\<close>, is below 1000000 with an error of status 400
  and performs no effect: the keys are not derived and no provider is called. The error
  is \<open>Minimum 1 ADA required\<close> when the fields are present and the recipient starts
  with \<^verbatim>\<open>addr\<close>, and the error of the earlier check otherwise.
\<close>

theorem ada_send_minimum_amount:
  "ada_amount b = Some amount \<and> \<lfloor>ada_mul env amount 1000000\<rfloor> < 1000000 \<longrightarrow>
     (fst (ada_send env b) = BadRequest MissingFields \<or>
      fst (ada_send env b) = BadRequest InvalidAddress \<or>
      fst (ada_send env b) = BadRequest MinimumAda) \<and>
     snd (ada_send env b) = [] \<and>
     (send_mnemonic b \<noteq> [] \<and> ada_to b \<noteq> [] \<and> amount \<noteq> 0 \<and> prefix ''addr'' (ada_to b) \<longrightarrow>
        ada_send env b = (BadRequest MinimumAda, []))"
  by (simp add: ada_send_def Let_def)

lemma ex_ada_half_amount: "\<lfloor>ada_mul ex_ada_env (1 / 2) 1000000\<rfloor> = 500000"
  by (simp add: ex_ada_env_def)

theorem ada_send_minimum_amount_witness:
  "ada_amount (ex_ada_body (1 / 2)) = Some (1 / 2) \<and>
   \<lfloor>ada_mul ex_ada_env (1 / 2) 1000000\<rfloor> < 1000000 \<and>
   ada_send ex_ada_env (ex_ada_body (1 / 2)) = (BadRequest MinimumAda, [])"
proof -
  have pre: "ada_amount (ex_ada_body (1 / 2)) = Some (1 / 2) \<and>
      \<lfloor>ada_mul ex_ada_env (1 / 2) 1000000\<rfloor> < 1000000"
    by (simp add: ex_ada_body_def ex_ada_half_amount)
  have fields: "send_mnemonic (ex_ada_body (1 / 2)) \<noteq> [] \<and> ada_to (ex_ada_body (1 / 2)) \<noteq> [] \<and>
      (1 / 2 :: real) \<noteq> 0 \<and> prefix ''addr'' (ada_to (ex_ada_body (1 / 2)))"
    by (simp add: ex_ada_body_def)
  note inst = ada_send_minimum_amount [of "ex_ada_body (1 / 2)" "1 / 2" ex_ada_env,
      THEN mp, OF pre, THEN conjunct2, THEN conjunct2, THEN mp, OF fields]
  with pre show ?thesis by blast
qed

subsection \<open>Coin selection of the Cardano routers\<close>

lemma lovelace_inputs_Cons:
  "lovelace_inputs (u # us) =
     (case find_lovelace u of None \<Rightarrow> lovelace_inputs us
      | Some l \<Rightarrow> (u, snd l) # lovelace_inputs us)"
  by (simp add: lovelace_inputs_def split: option.splits)

lemma input_loop_char:
  "\<exists>k. k \<le> length (lovelace_inputs us) \<and>
       input_loop us target ins running =
         (ins @ take k (lovelace_inputs us), running + input_total (take k (lovelace_inputs us))) \<and>
       (\<forall>j. 0 < j \<and> j < k \<longrightarrow> running + input_total (take j (lovelace_inputs us)) < target) \<and>
       (k < length (lovelace_inputs us) \<longrightarrow>
          target \<le> running + input_total (take k (lovelace_inputs us)))"
proof (induction us arbitrary: ins running)
  case Nil
  then show ?case by (simp add: lovelace_inputs_def input_total_def)
next
  case (Cons u us)
  show ?case
  proof (cases "find_lovelace u")
    case None
    with Cons.IH [of ins running] show ?thesis
      by (simp add: lovelace_inputs_Cons)
  next
    case (Some l)
    define q where "q = snd l"
    have unfold: "lovelace_inputs (u # us) = (u, q) # lovelace_inputs us"
      by (simp add: lovelace_inputs_Cons Some q_def)
    show ?thesis
    proof (cases "running + q \<ge> target")
      case True
      have "input_loop (u # us) target ins running = (ins @ [(u, q)], running + q)"
        using True Some by (simp add: q_def Let_def)
      then show ?thesis
        unfolding unfold by (intro exI [of _ 1]) (use True in \<open>simp add: input_total_def\<close>)
    next
      case False
      from Cons.IH [of "ins @ [(u, q)]" "running + q"]
      obtain k where k: "k \<le> length (lovelace_inputs us)"
        "input_loop us target (ins @ [(u, q)]) (running + q) =
           ((ins @ [(u, q)]) @ take k (lovelace_inputs us),
            running + q + input_total (take k (lovelace_inputs us)))"
        "\<forall>j. 0 < j \<and> j < k \<longrightarrow> running + q + input_total (take j (lovelace_inputs us)) < target"
        "k < length (lovelace_inputs us) \<longrightarrow>
           target \<le> running + q + input_total (take k (lovelace_inputs us))"
        by blast
      have run: "input_loop (u # us) target ins running =
          (ins @ take (Suc k) ((u, q) # lovelace_inputs us),
           running + input_total (take (Suc k) ((u, q) # lovelace_inputs us)))"
        using False Some k(2) by (simp add: q_def Let_def input_total_def)
      have pre: "\<forall>j. 0 < j \<and> j < Suc k \<longrightarrow>
          running + input_total (take j ((u, q) # lovelace_inputs us)) < target"
      proof (intro allI impI)
        fix j assume j: "0 < j \<and> j < Suc k"
        then obtain j' where j': "j = Suc j'" by (cases j) auto
        show "running + input_total (take j ((u, q) # lovelace_inputs us)) < target"
        proof (cases j')
          case 0
          with j' False show ?thesis by (simp add: input_total_def)
        next
          case (Suc n)
          with j j' k(3) have
            "running + q + input_total (take j' (lovelace_inputs us)) < target" by simp
          with j' show ?thesis by (simp add: input_total_def)
        qed
      qed
      have stop: "Suc k < length ((u, q) # lovelace_inputs us) \<longrightarrow>
          target \<le> running + input_total (take (Suc k) ((u, q) # lovelace_inputs us))"
        using k(4) by (simp add: input_total_def add.assoc)
      show ?thesis
        unfolding unfold using k(1) run pre stop by (intro exI [of _ "Suc k"]) simp
    qed
  qed
qed

lemma input_loop2_char:
  "\<exists>k. k \<le> length (all_inputs us) \<and>
       input_loop2 us target ins running =
         (ins @ take k (all_inputs us), running + input_total (take k (all_inputs us))) \<and>
       (\<forall>j. 0 < j \<and> j < k \<longrightarrow> running + input_total (take j (all_inputs us)) < target) \<and>
       (k < length (all_inputs us) \<longrightarrow>
          target \<le> running + input_total (take k (all_inputs us)))"
proof (induction us arbitrary: ins running)
  case Nil
  then show ?case by (simp add: all_inputs_def input_total_def)
next
  case (Cons u us)
  define q where "q = (case find_lovelace u of None \<Rightarrow> 0 | Some l \<Rightarrow> snd l)"
  have unfold: "all_inputs (u # us) = (u, q) # all_inputs us"
    by (simp add: all_inputs_def q_def)
  show ?case
  proof (cases "running + q \<ge> target")
    case True
    have "input_loop2 (u # us) target ins running = (ins @ [(u, q)], running + q)"
      using True by (simp add: q_def Let_def)
    then show ?thesis
      unfolding unfold by (intro exI [of _ 1]) (use True in \<open>simp add: input_total_def\<close>)
  next
    case False
    from Cons.IH [of "ins @ [(u, q)]" "running + q"]
    obtain k where k: "k \<le> length (all_inputs us)"
      "input_loop2 us target (ins @ [(u, q)]) (running + q) =
         ((ins @ [(u, q)]) @ take k (all_inputs us),
          running + q + input_total (take k (all_inputs us)))"
      "\<forall>j. 0 < j \<and> j < k \<longrightarrow> running + q + input_total (take j (all_inputs us)) < target"
      "k < length (all_inputs us) \<longrightarrow>
         target \<le> running + q + input_total (take k (all_inputs us))"
      by blast
    have run: "input_loop2 (u # us) target ins running =
        (ins @ take (Suc k) ((u, q) # all_inputs us),
         running + input_total (take (Suc k) ((u, q) # all_inputs us)))"
      using False k(2) by (simp add: q_def Let_def input_total_def)
    have pre: "\<forall>j. 0 < j \<and> j < Suc k \<longrightarrow>
        running + input_total (take j ((u, q) # all_inputs us)) < target"
    proof (intro allI impI)
      fix j assume j: "0 < j \<and> j < Suc k"
      then obtain j' where j': "j = Suc j'" by (cases j) auto
      show "running + input_total (take j ((u, q) # all_inputs us)) < target"
      proof (cases j')
        case 0
        with j' False show ?thesis by (simp add: input_total_def)
      next
        case (Suc n)
        with j j' k(3) have
          "running + q + input_total (take j' (all_inputs us)) < target" by simp
        with j' show ?thesis by (simp add: input_total_def)
      qed
    qed
    have stop: "Suc k < length ((u, q) # all_inputs us) \<longrightarrow>
        target \<le> running + input_total (take (Suc k) ((u, q) # all_inputs us))"
      using k(4) by (simp add: input_total_def add.assoc)
    show ?thesis
      unfolding unfold using k(1) run pre stop by (intro exI [of _ "Suc k"]) simp
  qed
qed

lemma ex_ada_one_run:
  "snd (ada_send ex_ada_env (ex_ada_body 1)) =
     [DeriveKeys ''seed words'', FetchAdaUtxos ''addr1-wallet'',
      BuildAndSign \<lparr>draft_output = (''addr1-dest'', 1000000),
                    draft_inputs = [(\<lparr>tx_hash = ''h1'', tx_index = 0,
                                      utxo_amount = [(''lovelace'', 10000000)]\<rparr>, 10000000)],
                    draft_change_address = ''addr1-wallet''\<rparr>,
      SubmitTx [1, 2, 3]]"
  by (simp add: ada_send_def ada_fund_and_sign_def ex_ada_env_def ex_ada_body_def
      deriveKeysFromMnemonic_def derive_keys_def ex_ada_lib_def ex_ada_utxos_def
      find_lovelace_def Let_def)

lemma ex_ada_one_run2:
  "snd (ada_send2 ex_ada_env (ex_ada_body 1)) =
     [DeriveKeys ''seed words'', FetchAdaUtxos ''addr1-wallet'',
      BuildAndSign \<lparr>draft_output = (''addr1-dest'', 1000000),
                    draft_inputs = [(\<lparr>tx_hash = ''h1'', tx_index = 0,
                                      utxo_amount = [(''lovelace'', 10000000)]\<rparr>, 10000000)],
                    draft_change_address = ''addr1-wallet''\<rparr>,
      SubmitTx [1, 2, 3]]"
  by (simp add: ada_send2_def ada_fund_and_sign_def ex_ada_env_def ex_ada_body_def
      deriveKeysFromMnemonic2_def derive_keys_def ex_ada_lib_def ex_ada_utxos_def
      find_lovelace_def Let_def)

text \<open>
  C6 (as amended). The Cardano send routes do not sort. The inputs of every draft handed
  to the builder are a prefix of the provider's reply, in the provider's order: of its
  outputs that carry a lovelace entry in the first router (the others are skipped), of
  all its outputs in the second (a missing entry counts 0). The prefix ends at the
  first output with which the running total reaches the requested amount plus the
  buffer (3000000 lovelace in the first router, 2000000 in the second), or with the
  last output.
\<close>

theorem ada_send_selection_in_provider_order:
  "(\<forall>d. BuildAndSign d \<in> set (snd (ada_send env b)) \<longrightarrow>
      (\<exists>amount (keys :: ada_keys) utxos k.
         ada_amount b = Some amount \<and> utxos_of env (ada_address keys) = Some utxos \<and>
         draft_inputs d = take k (lovelace_inputs utxos) \<and>
         (\<forall>j. 0 < j \<and> j < k \<longrightarrow>
            input_total (take j (lovelace_inputs utxos)) < \<lfloor>ada_mul env amount 1000000\<rfloor> + 3000000) \<and>
         (k < length (lovelace_inputs utxos) \<longrightarrow>
            \<lfloor>ada_mul env amount 1000000\<rfloor> + 3000000 \<le> input_total (draft_inputs d)))) \<and>
   (\<forall>d. BuildAndSign d \<in> set (snd (ada_send2 env b)) \<longrightarrow>
      (\<exists>amount (keys :: ada_keys) utxos k.
         ada_amount b = Some amount \<and> utxos_of env (ada_address keys) = Some utxos \<and>
         draft_inputs d = take k (all_inputs utxos) \<and>
         (\<forall>j. 0 < j \<and> j < k \<longrightarrow>
            input_total (take j (all_inputs utxos)) < \<lfloor>ada_mul env amount 1000000\<rfloor> + 2000000) \<and>
         (k < length (all_inputs utxos) \<longrightarrow>
            \<lfloor>ada_mul env amount 1000000\<rfloor> + 2000000 \<le> input_total (draft_inputs d))))"
proof (intro conjI allI impI)
  fix d
  assume "BuildAndSign d \<in> set (snd (ada_send env b))"
  from ada_send_inputs [OF this]
  obtain amount and keys :: ada_keys and utxos where r: "ada_amount b = Some amount"
    "utxos_of env (ada_address keys) = Some utxos"
    and r3: "draft_inputs d =
      fst (input_loop utxos (\<lfloor>ada_mul env amount 1000000\<rfloor> + 3000000) [] 0)"
    by blast
  from input_loop_char [of utxos "\<lfloor>ada_mul env amount 1000000\<rfloor> + 3000000" "[]" 0]
  obtain k where k:
    "input_loop utxos (\<lfloor>ada_mul env amount 1000000\<rfloor> + 3000000) [] 0 =
       ([] @ take k (lovelace_inputs utxos), 0 + input_total (take k (lovelace_inputs utxos)))"
    "\<forall>j. 0 < j \<and> j < k \<longrightarrow>
       0 + input_total (take j (lovelace_inputs utxos)) < \<lfloor>ada_mul env amount 1000000\<rfloor> + 3000000"
    "k < length (lovelace_inputs utxos) \<longrightarrow>
       \<lfloor>ada_mul env amount 1000000\<rfloor> + 3000000 \<le> 0 + input_total (take k (lovelace_inputs utxos))"
    by blast
  have "draft_inputs d = take k (lovelace_inputs utxos)"
    using r3 k(1) by simp
  with r(1,2) k(2,3) show "\<exists>amount (keys :: ada_keys) utxos k.
         ada_amount b = Some amount \<and> utxos_of env (ada_address keys) = Some utxos \<and>
         draft_inputs d = take k (lovelace_inputs utxos) \<and>
         (\<forall>j. 0 < j \<and> j < k \<longrightarrow>
            input_total (take j (lovelace_inputs utxos)) < \<lfloor>ada_mul env amount 1000000\<rfloor> + 3000000) \<and>
         (k < length (lovelace_inputs utxos) \<longrightarrow>
            \<lfloor>ada_mul env amount 1000000\<rfloor> + 3000000 \<le> input_total (draft_inputs d))"
    by (intro exI [of _ amount] exI [of _ keys] exI [of _ utxos] exI [of _ k]) simp
next
  fix d
  assume "BuildAndSign d \<in> set (snd (ada_send2 env b))"
  from ada_send2_inputs [OF this]
  obtain amount and keys :: ada_keys and utxos where r: "ada_amount b = Some amount"
    "utxos_of env (ada_address keys) = Some utxos"
    and r3: "draft_inputs d =
      fst (input_loop2 utxos (\<lfloor>ada_mul env amount 1000000\<rfloor> + 2000000) [] 0)"
    by blast
  from input_loop2_char [of utxos "\<lfloor>ada_mul env amount 1000000\<rfloor> + 2000000" "[]" 0]
  obtain k where k:
    "input_loop2 utxos (\<lfloor>ada_mul env amount 1000000\<rfloor> + 2000000) [] 0 =
       ([] @ take k (all_inputs utxos), 0 + input_total (take k (all_inputs utxos)))"
    "\<forall>j. 0 < j \<and> j < k \<longrightarrow>
       0 + input_total (take j (all_inputs utxos)) < \<lfloor>ada_mul env amount 1000000\<rfloor> + 2000000"
    "k < length (all_inputs utxos) \<longrightarrow>
       \<lfloor>ada_mul env amount 1000000\<rfloor> + 2000000 \<le> 0 + input_total (take k (all_inputs utxos))"
    by blast
  have "draft_inputs d = take k (all_inputs utxos)"
    using r3 k(1) by simp
  with r(1,2) k(2,3) show "\<exists>amount (keys :: ada_keys) utxos k.
         ada_amount b = Some amount \<and> utxos_of env (ada_address keys) = Some utxos \<and>
         draft_inputs d = take k (all_inputs utxos) \<and>
         (\<forall>j. 0 < j \<and> j < k \<longrightarrow>
            input_total (take j (all_inputs utxos)) < \<lfloor>ada_mul env amount 1000000\<rfloor> + 2000000) \<and>
         (k < length (all_inputs utxos) \<longrightarrow>
            \<lfloor>ada_mul env amount 1000000\<rfloor> + 2000000 \<le> input_total (draft_inputs d))"
    by (intro exI [of _ amount] exI [of _ keys] exI [of _ utxos] exI [of _ k]) simp
qed

theorem ada_send_selection_witness:
  "BuildAndSign \<lparr>draft_output = (''addr1-dest'', 1000000),
                 draft_inputs = [(\<lparr>tx_hash = ''h1'', tx_index = 0,
                                   utxo_amount = [(''lovelace'', 10000000)]\<rparr>, 10000000)],
                 draft_change_address = ''addr1-wallet''\<rparr>
     \<in> set (snd (ada_send ex_ada_env (ex_ada_body 1))) \<and>
   (\<exists>utxos k. [(\<lparr>tx_hash = ''h1'', tx_index = 0,
                  utxo_amount = [(''lovelace'', 10000000)]\<rparr>, 10000000 :: int)]
               = take k (lovelace_inputs utxos)) \<and>
   BuildAndSign \<lparr>draft_output = (''addr1-dest'', 1000000),
                 draft_inputs = [(\<lparr>tx_hash = ''h1'', tx_index = 0,
                                   utxo_amount = [(''lovelace'', 10000000)]\<rparr>, 10000000)],
                 draft_change_address = ''addr1-wallet''\<rparr>
     \<in> set (snd (ada_send2 ex_ada_env (ex_ada_body 1))) \<and>
   (\<exists>utxos k. [(\<lparr>tx_hash = ''h1'', tx_index = 0,
                  utxo_amount = [(''lovelace'', 10000000)]\<rparr>, 10000000 :: int)]
               = take k (all_inputs utxos))"
proof -
  let ?d = "\<lparr>draft_output = (''addr1-dest'', 1000000),
             draft_inputs = [(\<lparr>tx_hash = ''h1'', tx_index = 0,
                               utxo_amount = [(''lovelace'', 10000000)]\<rparr>, 10000000)],
             draft_change_address = ''addr1-wallet''\<rparr>"
  have built: "BuildAndSign ?d \<in> set (snd (ada_send ex_ada_env (ex_ada_body 1)))"
    by (simp add: ex_ada_one_run)
  have built2: "BuildAndSign ?d \<in> set (snd (ada_send2 ex_ada_env (ex_ada_body 1)))"
    by (simp add: ex_ada_one_run2)
  from ada_send_selection_in_provider_order [of ex_ada_env "ex_ada_body 1", THEN conjunct1,
      THEN spec, THEN mp, OF built]
  have one: "\<exists>utxos k. draft_inputs ?d = take k (lovelace_inputs utxos)"
    by blast
  from ada_send_selection_in_provider_order [of ex_ada_env "ex_ada_body 1", THEN conjunct2,
      THEN spec, THEN mp, OF built2]
  have two: "\<exists>utxos k. draft_inputs ?d = take k (all_inputs utxos)"
    by blast
  from built built2 one two show ?thesis by simp
qed

text \<open>
  The claim's ascending order fails on the code: the wallet holds 10 ada followed by
  2 ada; for 1 ada both routers take the output of 10 ada alone, where the selector of
  the UTXO chain takes 2 ada and then 10 ada; for 9 ada both routers take 10 ada and then
  2 ada, which is not ascending.
\<close>

theorem ada_selection_not_ascending_counterexample:
  "snd (ada_send ex_ada_env (ex_ada_body 1)) =
     [DeriveKeys ''seed words'', FetchAdaUtxos ''addr1-wallet'',
      BuildAndSign \<lparr>draft_output = (''addr1-dest'', 1000000),
                    draft_inputs = [(\<lparr>tx_hash = ''h1'', tx_index = 0,
                                      utxo_amount = [(''lovelace'', 10000000)]\<rparr>, 10000000)],
                    draft_change_address = ''addr1-wallet''\<rparr>,
      SubmitTx [1, 2, 3]] \<and>
   snd (ada_send2 ex_ada_env (ex_ada_body 1)) = snd (ada_send ex_ada_env (ex_ada_body 1)) \<and>
   map (\<lambda>u. int (value' u))
     (fst (selectUtxosGreedy [ex_utxo ''h1'' 10000000, ex_utxo ''h2'' 2000000] (1000000 + 3000000)))
     = [2000000, 10000000] \<and>
   map snd (fst (input_loop ex_ada_utxos (9000000 + 3000000) [] 0)) = [10000000, 2000000] \<and>
   map snd (fst (input_loop2 ex_ada_utxos (9000000 + 2000000) [] 0)) = [10000000, 2000000] \<and>
   \<not> sorted [10000000, 2000000 :: int]"
  by (simp add: ex_ada_one_run ex_ada_one_run2 selectUtxosGreedy_def ex_utxo_def ex_ada_utxos_def
      find_lovelace_def Let_def)

subsection \<open>Conversion of amounts to base units\<close>

lemma sol_send_signs:
  assumes "SendAndConfirm tx kp \<in> set (snd (sol_send env from b))"
  shows "\<exists>amount. sol_amount b = Some amount \<and> amount \<noteq> 0 \<and>
           keypairFromPrivateKeyInput (library env) (sol_privateKey b) = Inr kp \<and>
           bs58_encode (library env) (publicKey kp) = from \<and>
           tx = \<lparr>fromPubkey = publicKey kp, toPubkey = sol_to b,
                  lamports = \<lfloor>sol_mul env amount LAMPORTS_PER_SOL\<rfloor>\<rparr>"
proof -
  from assms obtain amount where a: "sol_amount b = Some amount"
    by (cases "sol_amount b") (auto simp: sol_send_def)
  from assms a have f: "amount \<noteq> 0" "\<not> falsy (sol_privateKey b)" "sol_to b \<noteq> []"
    by (auto simp: sol_send_def split: if_splits)
  from assms a f obtain sender where
    k: "keypairFromPrivateKeyInput (library env) (sol_privateKey b) = Inr sender"
    by (cases "keypairFromPrivateKeyInput (library env) (sol_privateKey b)")
      (auto simp: sol_send_def)
  from assms a f k have m: "bs58_encode (library env) (publicKey sender) = from"
    by (auto simp: sol_send_def split: if_splits)
  from assms a f k m have "kp = sender \<and>
      tx = \<lparr>fromPubkey = publicKey sender, toPubkey = sol_to b,
             lamports = \<lfloor>sol_mul env amount LAMPORTS_PER_SOL\<rfloor>\<rparr>"
    by (auto simp: sol_send_def Let_def split: if_splits option.splits)
  with a f k m show ?thesis by blast
qed

lemma ex_sol_run:
  "sol_send ex_sol_env ''SolAddr5'' ex_sol_body =
     (Ok \<lparr>sol_sent_from = ''SolAddr5'', sol_sent_to = ''SolDest'', sol_sent_amount = 3 / 2,
          sol_sent_lamports = 1500000000, txSignature = ''sol-signature''\<rparr>,
      [SendAndConfirm \<lparr>fromPubkey = replicate 32 5, toPubkey = ''SolDest'',
                        lamports = 1500000000\<rparr>
         \<lparr>publicKey = replicate 32 5, secretKey = replicate 32 5 @ replicate 32 5\<rparr>])"
proof -
  have key: "keypairFromPrivateKeyInput ex_sol_lib (JStr ''seed58'') =
      Inr \<lparr>publicKey = replicate 32 5, secretKey = replicate 32 5 @ replicate 32 5\<rparr>"
    by (simp add: keypairFromPrivateKeyInput_def try_json_array_def try_base58_def
        ex_sol_lib_def)
  have enc: "bs58_encode ex_sol_lib (replicate 32 5) = ''SolAddr5''"
    by (simp add: ex_sol_lib_def)
  show ?thesis
    by (simp add: sol_send_def ex_sol_env_def ex_sol_body_def key enc LAMPORTS_PER_SOL_def)
qed

text \<open>
  The rounding of the runtime: the exponent found by \<open>ilog2\<close> is the right one, a
  number below \<open>2^53\<close> rounds to a double between its floor and its ceiling, and the
  doubles and products of the examples.
\<close>

lemma ilog2_bounds:
  assumes "0 < x"
  shows "2 powi (ilog2 x) \<le> x" and "x < 2 powi (ilog2 x + 1)"
proof -
  have "2 powi (ilog2 x) \<le> x \<and> x < 2 powi (ilog2 x + 1)"
  proof (cases "1 \<le> x")
    case True
    then have n: "0 < \<lfloor>x\<rfloor>" by simp
    define k where "k = bitlen \<lfloor>x\<rfloor>"
    from bitlen_bounds [OF n] have b: "2 ^ nat (k - 1) \<le> \<lfloor>x\<rfloor>" "\<lfloor>x\<rfloor> < 2 ^ nat k"
      by (simp_all add: k_def)
    have kpos: "1 \<le> k" using n bitlen_eq_zero_iff [of "\<lfloor>x\<rfloor>"] bitlen_nonneg [of "\<lfloor>x\<rfloor>"]
      by (simp add: k_def)
    have lo: "2 ^ nat (k - 1) \<le> x" using b(1) by (simp add: le_floor_iff)
    have hi: "x < 2 ^ nat k" using b(2) by (simp add: floor_less_iff)
    have e: "ilog2 x = k - 1" using True by (simp add: ilog2_def k_def)
    show ?thesis using lo hi kpos by (simp add: e power_int_def)
  next
    case False
    define y where "y = 1 / x"
    have y: "1 < y" using False assms by (simp add: y_def)
    define m where "m = \<lceil>y\<rceil> - 1"
    have m: "0 < m" "real_of_int m < y" "y \<le> real_of_int m + 1"
      using y by (simp_all add: m_def) linarith+
    define k where "k = bitlen m"
    from bitlen_bounds [OF m(1)] have b: "2 ^ nat (k - 1) \<le> m" "m < 2 ^ nat k"
      by (simp_all add: k_def)
    have kpos: "1 \<le> k" using m(1) bitlen_eq_zero_iff [of m] bitlen_nonneg [of m]
      by (simp add: k_def)
    from b(1) have "real_of_int (2 ^ nat (k - 1)) \<le> real_of_int m" by (simp only: of_int_le_iff)
    with m(2) have "real_of_int (2 ^ nat (k - 1)) < y" by linarith
    then have lo: "2 ^ nat (k - 1) < y" by simp
    from b(2) have "m + 1 \<le> 2 ^ nat k" by simp
    then have "real_of_int (m + 1) \<le> real_of_int (2 ^ nat k)" by (simp only: of_int_le_iff)
    with m(3) have "y \<le> real_of_int (2 ^ nat k)" by linarith
    then have hi: "y \<le> 2 ^ nat k" by simp
    have e: "ilog2 x = - k" using False by (simp add: ilog2_def k_def m_def y_def)
    have x: "x = 1 / y" using assms by (simp add: y_def)
    have ypos: "0 < y" using y by simp
    have p1: "(1::real) / 2 ^ nat k \<le> 1 / y"
      using hi ypos by (simp add: frac_le)
    have p2: "1 / y < (1::real) / 2 ^ nat (k - 1)"
      using lo by (simp add: frac_less2)
    have A: "2 powi (- k) = (1::real) / 2 ^ nat k" using kpos
      by (simp add: power_int_def field_simps)
    have B: "2 powi (- k + 1) = (1::real) / 2 ^ nat (k - 1)"
    proof (cases "k = 1")
      case True then show ?thesis by simp
    next
      case False
      then have "- k + 1 < 0" using kpos by simp
      moreover have "nat (- (- k + 1)) = nat (k - 1)" by simp
      ultimately show ?thesis by (simp add: power_int_def field_simps)
    qed
    have g1: "2 powi (- k) \<le> x" unfolding A x by (rule p1)
    have g2: "x < 2 powi (- k + 1)" unfolding B x by (rule p2)
    show ?thesis unfolding e using g1 g2 by blast
  qed
  then show "2 powi (ilog2 x) \<le> x" and "x < 2 powi (ilog2 x + 1)" by simp_all
qed

lemma round_half_even_bounds: "\<lfloor>x\<rfloor> \<le> round_half_even x \<and> round_half_even x \<le> \<lceil>x\<rceil>"
  by (simp add: round_half_even_def Let_def) linarith

lemma binary64_between:
  assumes "0 \<le> x" and "x < 2 ^ 53"
  shows "of_int \<lfloor>x\<rfloor> \<le> binary64 x \<and> binary64 x \<le> of_int \<lceil>x\<rceil>"
proof (cases "x = 0")
  case True then show ?thesis by (simp add: binary64_def)
next
  case False
  then have pos: "0 < x" using assms(1) by simp
  define e where "e = max (ilog2 \<bar>x\<bar> - 52) (- 1074)"
  have "2 powi (ilog2 x) < (2::real) powi 53"
    using ilog2_bounds(1) [OF pos] assms(2) by simp
  then have "ilog2 x < 53" using power_int_le_imp_less_exp [of "2::real" "ilog2 x" 53] by simp
  then have ele: "e \<le> 0" using pos by (simp add: e_def)
  define m where "m = nat (- e)"
  have p: "(2::real) powi e = 1 / 2 ^ m" using ele by (cases "e = 0") (simp_all add: power_int_def m_def field_simps)
  define y where "y = x * 2 ^ m"
  have b: "binary64 x = of_int (round_half_even y) / 2 ^ m"
    using False by (simp add: binary64_def Let_def e_def [symmetric] p y_def)
  have "real_of_int (\<lfloor>x\<rfloor> * 2 ^ m) \<le> y" by (simp add: y_def)
  then have lo: "\<lfloor>x\<rfloor> * 2 ^ m \<le> \<lfloor>y\<rfloor>" by (simp add: le_floor_iff)
  have "y \<le> real_of_int (\<lceil>x\<rceil> * 2 ^ m)" by (simp add: y_def)
  then have hi: "\<lceil>y\<rceil> \<le> \<lceil>x\<rceil> * 2 ^ m" by (simp add: ceiling_le_iff)
  from round_half_even_bounds [of y] lo hi
  have "\<lfloor>x\<rfloor> * 2 ^ m \<le> round_half_even y" "round_half_even y \<le> \<lceil>x\<rceil> * 2 ^ m" by simp_all
  then have "real_of_int (\<lfloor>x\<rfloor> * 2 ^ m) \<le> real_of_int (round_half_even y)"
    "real_of_int (round_half_even y) \<le> real_of_int (\<lceil>x\<rceil> * 2 ^ m)"
    by (simp_all only: of_int_le_iff)
  then show ?thesis by (simp add: b field_simps)
qed


lemma ilog2_eqI:
  assumes "0 < x" and "2 powi k \<le> x" and "x < 2 powi (k + 1)"
  shows "ilog2 x = k"
proof -
  have "\<not> k + 1 \<le> ilog2 x"
  proof
    assume "k + 1 \<le> ilog2 x"
    then have "(2::real) powi (k + 1) \<le> 2 powi (ilog2 x)" by (rule power_int_increasing) simp
    with ilog2_bounds(1) [OF assms(1)] assms(3) show False by linarith
  qed
  moreover have "\<not> ilog2 x + 1 \<le> k"
  proof
    assume "ilog2 x + 1 \<le> k"
    then have "(2::real) powi (ilog2 x + 1) \<le> 2 powi k" by (rule power_int_increasing) simp
    with ilog2_bounds(2) [OF assms(1)] assms(2) show False by linarith
  qed
  ultimately show ?thesis by linarith
qed

lemma binary64_at_exponent:
  assumes "0 < x" and "2 powi k \<le> x" and "x < 2 powi (k + 1)" and "- 1022 \<le> k"
  shows "binary64 x = of_int (round_half_even (x / 2 powi (k - 52))) * 2 powi (k - 52)"
proof -
  have x0: "x \<noteq> 0" and a: "\<bar>x\<bar> = x" using assms(1) by simp_all
  have "ilog2 x = k" using assms(1-3) by (rule ilog2_eqI)
  then have m: "max (ilog2 x - 52) (- 1074) = k - 52" using assms(4) by simp
  show ?thesis unfolding binary64_def a m Let_def using x0 by (simp only: if_False)
qed

lemma binary64_below_one:
  assumes "1 \<le> x * 2 ^ j" and "x * 2 ^ j < 2" and "j \<le> 1022"
  shows "binary64 x = of_int (round_half_even (x * 2 ^ (52 + j))) / 2 ^ (52 + j)"
proof -
  have pos: "0 < x"
  proof (rule ccontr)
    assume "\<not> 0 < x"
    then have "x * 2 ^ j \<le> 0" by (simp add: mult_le_0_iff)
    with assms(1) show False by linarith
  qed
  have p: "(2::real) powi (- int j) = 1 / 2 ^ j" by (simp add: power_int_def field_simps)
  have "(2::real) powi (- int j + 1) = 2 powi (- int j) * 2 powi 1"
    by (rule power_int_add) simp
  then have q: "(2::real) powi (- int j + 1) = 2 / 2 ^ j"
    unfolding p by simp
  have r: "(2::real) powi (- int j - 52) = 1 / 2 ^ (52 + j)"
    by (simp add: power_int_def field_simps)
  have lo: "2 powi (- int j) \<le> x" unfolding p using assms(1) by (simp add: field_simps)
  have hi: "x < 2 powi (- int j + 1)" unfolding q using assms(2) by (simp add: field_simps)
  have k: "- 1022 \<le> - int j" using assms(3) by simp
  from binary64_at_exponent [OF pos lo hi k] show ?thesis unfolding r by simp
qed

lemma binary64_above_one:
  assumes "2 ^ j \<le> x" and "x < 2 * 2 ^ j" and "j \<le> 52"
  shows "binary64 x = of_int (round_half_even (x * 2 ^ (52 - j))) / 2 ^ (52 - j)"
proof -
  have pos: "0 < x" using assms(1) by (rule less_le_trans [rotated]) simp
  have r: "(2::real) powi (int j - 52) = 1 / 2 ^ (52 - j)"
    using assms(3) by (cases "j = 52") (simp_all add: power_int_def field_simps nat_diff_distrib)
  have lo: "2 powi (int j) \<le> x" using assms(1) by simp
  have "(2::real) powi (int j + 1) = 2 powi (int j) * 2 powi 1"
    by (rule power_int_add) simp
  then have hi: "x < 2 powi (int j + 1)" using assms(2) by simp
  have k: "- 1022 \<le> int j" by simp
  from binary64_at_exponent [OF pos lo hi k] show ?thesis unfolding r by simp
qed

lemma binary64_numeral:
  "numeral w < (2::real) ^ 53 \<Longrightarrow> binary64 (numeral w) = numeral w"
  using binary64_between [of "numeral w"] by simp

lemma double_00015: "binary64 (15 / 100000) = 5534023222112865 / 2 ^ 65"
  by (subst binary64_below_one [where j = 13]) (simp_all add: round_half_even_def Let_def)

lemma product_00015: "fmul (binary64 (15 / 100000)) 100000000 = 8246337208319999 / 2 ^ 39"
  unfolding fmul_def double_00015
  by (subst binary64_above_one [where j = 13]) (simp_all add: round_half_even_def Let_def)

lemma double_41: "binary64 (41 / 10) = 2308094809027379 / 2 ^ 49"
  by (subst binary64_above_one [where j = 2]) (simp_all add: round_half_even_def Let_def)

lemma product_41_sol: "fmul (binary64 (41 / 10)) 1000000000 = 8598323199999999 / 2 ^ 21"
  unfolding fmul_def double_41
  by (subst binary64_above_one [where j = 31]) (simp_all add: round_half_even_def Let_def)

lemma product_41_ada: "fmul (binary64 (41 / 10)) 1000000 = 8804682956799999 / 2 ^ 31"
  unfolding fmul_def double_41
  by (subst binary64_above_one [where j = 21]) (simp_all add: round_half_even_def Let_def)

lemma double_03: "binary64 (3 / 10) = 5404319552844595 / 2 ^ 54"
  by (subst binary64_below_one [where j = 2]) (simp_all add: round_half_even_def Let_def)

lemma product_03: "fmul (binary64 (3 / 10)) 100000000 = 30000000"
  unfolding fmul_def double_03
  by (subst binary64_above_one [where j = 24]) (simp_all add: round_half_even_def Let_def)

lemma floor_00015: "\<lfloor>fmul (binary64 (15 / 100000)) 100000000\<rfloor> = 14999"
  unfolding product_00015 by simp

lemma floor_41_sol: "\<lfloor>fmul (binary64 (41 / 10)) 1000000000\<rfloor> = 4099999999"
  unfolding product_41_sol by simp

lemma floor_41_ada: "\<lfloor>fmul (binary64 (41 / 10)) 1000000\<rfloor> = 4099999"
  unfolding product_41_ada by simp

lemma floor_03: "\<lfloor>fmul (binary64 (3 / 10)) 100000000\<rfloor> = 30000000"
  unfolding product_03 by simp

lemma double_03_below: "binary64 (3 / 10) * 10 ^ 8 < 30000000"
  unfolding double_03 by simp

lemma example_products:
  "fmul (1 / 4) 100000000 = 25000000"
  "fmul 208 10 = 2080"
  "fmul 1 1000000 = 1000000"
  by (simp_all add: fmul_def binary64_numeral)

lemma ex_btc_quarter_run64:
  "btc_send ex_btc_env64 ''addr-B'' ex_btc_quarter =
     (Ok \<lparr>sent_from = ''addr-B'', sent_to = ''addr-C'', amount_btc = 1 / 4,
          amount_sats = 25000000, fee_sats = 2080, sent_txid = ''txid-1''\<rparr>,
      [FetchUtxos ''addr-B'', FetchFeeRate,
       SignPsbt \<lparr>inputs = [ex_utxo ''t3'' 10000000, ex_utxo ''t4'' 25000000],
                 outputs = [(''addr-C'', 25000000), (''addr-B'', 9997920)]\<rparr> ''wif-B'',
       BroadcastTx ''signed-hex''])"
  by (simp add: btc_send_def btc_fund_and_sign_def ex_btc_env64_def ex_btc_env_def
      ex_btc_quarter_def btc_rate_def fetchFeeRate_def btcToSats_def selectUtxosGreedy_def
      txFee_def estimateTxVsize_formula ex_utxo_def round_def fmul_def binary64_numeral)

lemma ex_sol_run41:
  "sol_send ex_sol_env64 ''SolAddr5'' ex_sol_body41 =
     (Ok \<lparr>sol_sent_from = ''SolAddr5'', sol_sent_to = ''SolDest'',
          sol_sent_amount = binary64 (41 / 10),
          sol_sent_lamports = 4099999999, txSignature = ''sol-signature''\<rparr>,
      [SendAndConfirm \<lparr>fromPubkey = replicate 32 5, toPubkey = ''SolDest'',
                        lamports = 4099999999\<rparr>
         \<lparr>publicKey = replicate 32 5, secretKey = replicate 32 5 @ replicate 32 5\<rparr>])"
proof -
  have key: "keypairFromPrivateKeyInput ex_sol_lib (JStr ''seed58'') =
      Inr \<lparr>publicKey = replicate 32 5, secretKey = replicate 32 5 @ replicate 32 5\<rparr>"
    by (simp add: keypairFromPrivateKeyInput_def try_json_array_def try_base58_def
        ex_sol_lib_def)
  have enc: "bs58_encode ex_sol_lib (replicate 32 5) = ''SolAddr5''"
    by (simp add: ex_sol_lib_def)
  have nz: "binary64 (41 / 10) \<noteq> 0"
    unfolding double_41 by simp
  show ?thesis
    by (simp add: sol_send_def ex_sol_env64_def ex_sol_env_def ex_sol_body41_def key enc nz
        LAMPORTS_PER_SOL_def floor_41_sol)
qed

lemma ex_ada_one_run64:
  "snd (ada_send ex_ada_env64 (ex_ada_body 1)) =
     [DeriveKeys ''seed words'', FetchAdaUtxos ''addr1-wallet'',
      BuildAndSign \<lparr>draft_output = (''addr1-dest'', 1000000),
                    draft_inputs = [(\<lparr>tx_hash = ''h1'', tx_index = 0,
                                      utxo_amount = [(''lovelace'', 10000000)]\<rparr>, 10000000)],
                    draft_change_address = ''addr1-wallet''\<rparr>,
      SubmitTx [1, 2, 3]]"
  "snd (ada_send2 ex_ada_env64 (ex_ada_body 1)) =
     [DeriveKeys ''seed words'', FetchAdaUtxos ''addr1-wallet'',
      BuildAndSign \<lparr>draft_output = (''addr1-dest'', 1000000),
                    draft_inputs = [(\<lparr>tx_hash = ''h1'', tx_index = 0,
                                      utxo_amount = [(''lovelace'', 10000000)]\<rparr>, 10000000)],
                    draft_change_address = ''addr1-wallet''\<rparr>,
      SubmitTx [1, 2, 3]]"
  by (simp_all add: ada_send_def ada_send2_def ada_fund_and_sign_def ex_ada_env64_def
      ex_ada_env_def ex_ada_body_def deriveKeysFromMnemonic_def deriveKeysFromMnemonic2_def
      derive_keys_def ex_ada_lib_def ex_ada_utxos_def find_lovelace_def Let_def fmul_def
      binary64_numeral)

text \<open>
  C10 (as amended). In every send of the Bitcoin (btc-server.mjs), Solana and Cardano
  routers, the amount placed in the transaction that is handed to signing is the floor
  of the product \<^verbatim>\<open>Number(amount) * 10^d\<close> as the language computes it, in double
  precision, for \<open>d\<close> = 8, 9 and 6: the value of \<open>btcToSats\<close> and of the first output,
  the lamports of the transfer, the value of the Cardano output. It is an integer and at
  most that double; for a product below \<open>2^53\<close> it lies between the floor and the
  ceiling of the exact product of the number the route holds. It need not be the floor
  of the exact product of the decimal amount the caller wrote.
\<close>

theorem amounts_floor_of_double_product:
  "btcToSats fmul a = \<lfloor>binary64 (a * 10 ^ 8)\<rfloor> \<and>
   (btc_mul env = fmul \<longrightarrow>
      (\<forall>d k. SignPsbt d k \<in> set (snd (btc_send env from b)) \<longrightarrow>
         (\<exists>amount change. btc_amount b = Some amount \<and>
            outputs d = [(btc_to b, \<lfloor>binary64 (amount * 10 ^ 8)\<rfloor>), (from, change)]))) \<and>
   (sol_mul senv = fmul \<longrightarrow>
      (\<forall>tx kp. SendAndConfirm tx kp \<in> set (snd (sol_send senv sfrom sb)) \<longrightarrow>
         (\<exists>amount. sol_amount sb = Some amount \<and>
            lamports tx = \<lfloor>binary64 (amount * 10 ^ 9)\<rfloor>))) \<and>
   (ada_mul aenv = fmul \<longrightarrow>
      (\<forall>d. BuildAndSign d \<in> set (snd (ada_send aenv ab)) \<longrightarrow>
         (\<exists>amount. ada_amount ab = Some amount \<and>
            draft_output d = (ada_to ab, \<lfloor>binary64 (amount * 10 ^ 6)\<rfloor>)))) \<and>
   (ada_mul aenv = fmul \<longrightarrow>
      (\<forall>d. BuildAndSign d \<in> set (snd (ada_send2 aenv ab)) \<longrightarrow>
         (\<exists>amount. ada_amount ab = Some amount \<and>
            draft_output d = (ada_to ab, \<lfloor>binary64 (amount * 10 ^ 6)\<rfloor>)))) \<and>
   (0 \<le> x \<and> x < 2 ^ 53 \<longrightarrow>
      real_of_int \<lfloor>binary64 x\<rfloor> \<le> binary64 x \<and>
      \<lfloor>x\<rfloor> \<le> \<lfloor>binary64 x\<rfloor> \<and> \<lfloor>binary64 x\<rfloor> \<le> \<lceil>x\<rceil>)"
proof (intro conjI impI allI)
  show "btcToSats fmul a = \<lfloor>binary64 (a * 10 ^ 8)\<rfloor>"
    by (simp add: btcToSats_def fmul_def)
next
  fix d k
  assume m: "btc_mul env = fmul"
  assume "SignPsbt d k \<in> set (snd (btc_send env from b))"
  from btc_send_signs [OF this]
  obtain amount utxos where r: "btc_amount b = Some amount"
    "d = btc_draft env from b amount utxos"
    by blast
  have "outputs d = [(btc_to b, \<lfloor>binary64 (amount * 10 ^ 8)\<rfloor>),
      (from, btc_change env b amount utxos)]"
    by (simp add: r(2) btc_draft_def btcToSats_def m fmul_def)
  with r(1) show "\<exists>amount change. btc_amount b = Some amount \<and>
      outputs d = [(btc_to b, \<lfloor>binary64 (amount * 10 ^ 8)\<rfloor>), (from, change)]"
    by blast
next
  fix tx kp
  assume m: "sol_mul senv = fmul"
  assume "SendAndConfirm tx kp \<in> set (snd (sol_send senv sfrom sb))"
  from sol_send_signs [OF this]
  obtain amount where r: "sol_amount sb = Some amount"
    "tx = \<lparr>fromPubkey = publicKey kp, toPubkey = sol_to sb,
           lamports = \<lfloor>sol_mul senv amount LAMPORTS_PER_SOL\<rfloor>\<rparr>"
    by blast
  have "lamports tx = \<lfloor>binary64 (amount * 10 ^ 9)\<rfloor>"
    by (simp add: r(2) LAMPORTS_PER_SOL_def m fmul_def)
  with r(1) show "\<exists>amount. sol_amount sb = Some amount \<and>
      lamports tx = \<lfloor>binary64 (amount * 10 ^ 9)\<rfloor>"
    by blast
next
  fix d
  assume m: "ada_mul aenv = fmul"
  assume "BuildAndSign d \<in> set (snd (ada_send aenv ab))"
  from ada_send_inputs [OF this]
  obtain amount where r: "ada_amount ab = Some amount"
    "draft_output d = (ada_to ab, \<lfloor>ada_mul aenv amount 1000000\<rfloor>)"
    by blast
  have "draft_output d = (ada_to ab, \<lfloor>binary64 (amount * 10 ^ 6)\<rfloor>)"
    by (simp add: r(2) m fmul_def)
  with r(1) show "\<exists>amount. ada_amount ab = Some amount \<and>
      draft_output d = (ada_to ab, \<lfloor>binary64 (amount * 10 ^ 6)\<rfloor>)"
    by blast
next
  fix d
  assume m: "ada_mul aenv = fmul"
  assume "BuildAndSign d \<in> set (snd (ada_send2 aenv ab))"
  from ada_send2_inputs [OF this]
  obtain amount where r: "ada_amount ab = Some amount"
    "draft_output d = (ada_to ab, \<lfloor>ada_mul aenv amount 1000000\<rfloor>)"
    by blast
  have "draft_output d = (ada_to ab, \<lfloor>binary64 (amount * 10 ^ 6)\<rfloor>)"
    by (simp add: r(2) m fmul_def)
  with r(1) show "\<exists>amount. ada_amount ab = Some amount \<and>
      draft_output d = (ada_to ab, \<lfloor>binary64 (amount * 10 ^ 6)\<rfloor>)"
    by blast
next
  show "real_of_int \<lfloor>binary64 x\<rfloor> \<le> binary64 x" by simp
next
  assume "0 \<le> x \<and> x < 2 ^ 53"
  then have "real_of_int \<lfloor>x\<rfloor> \<le> binary64 x"
    using binary64_between [of x] by simp
  then show "\<lfloor>x\<rfloor> \<le> \<lfloor>binary64 x\<rfloor>" by (simp add: le_floor_iff)
next
  assume "0 \<le> x \<and> x < 2 ^ 53"
  then have "binary64 x \<le> real_of_int \<lceil>x\<rceil>"
    using binary64_between [of x] by simp
  then have "\<lfloor>binary64 x\<rfloor> \<le> \<lfloor>real_of_int \<lceil>x\<rceil>\<rfloor>" by (rule floor_mono)
  then show "\<lfloor>binary64 x\<rfloor> \<le> \<lceil>x\<rceil>" by simp
qed

theorem amounts_floor_of_double_product_witness:
  "btc_mul ex_btc_env64 = fmul \<and> sol_mul ex_sol_env64 = fmul \<and> ada_mul ex_ada_env64 = fmul \<and>
   SignPsbt \<lparr>inputs = [ex_utxo ''t3'' 10000000, ex_utxo ''t4'' 25000000],
             outputs = [(''addr-C'', 25000000), (''addr-B'', 9997920)]\<rparr> ''wif-B''
     \<in> set (snd (btc_send ex_btc_env64 ''addr-B'' ex_btc_quarter)) \<and>
   \<lfloor>binary64 (1 / 4 * 10 ^ 8)\<rfloor> = 25000000 \<and>
   SendAndConfirm \<lparr>fromPubkey = replicate 32 5, toPubkey = ''SolDest'', lamports = 4099999999\<rparr>
       \<lparr>publicKey = replicate 32 5, secretKey = replicate 32 5 @ replicate 32 5\<rparr>
     \<in> set (snd (sol_send ex_sol_env64 ''SolAddr5'' ex_sol_body41)) \<and>
   \<lfloor>binary64 (binary64 (41 / 10) * 10 ^ 9)\<rfloor> = 4099999999 \<and>
   BuildAndSign \<lparr>draft_output = (''addr1-dest'', 1000000),
                 draft_inputs = [(\<lparr>tx_hash = ''h1'', tx_index = 0,
                                   utxo_amount = [(''lovelace'', 10000000)]\<rparr>, 10000000)],
                 draft_change_address = ''addr1-wallet''\<rparr>
     \<in> set (snd (ada_send ex_ada_env64 (ex_ada_body 1))) \<and>
   BuildAndSign \<lparr>draft_output = (''addr1-dest'', 1000000),
                 draft_inputs = [(\<lparr>tx_hash = ''h1'', tx_index = 0,
                                   utxo_amount = [(''lovelace'', 10000000)]\<rparr>, 10000000)],
                 draft_change_address = ''addr1-wallet''\<rparr>
     \<in> set (snd (ada_send2 ex_ada_env64 (ex_ada_body 1))) \<and>
   \<lfloor>binary64 (1 * 10 ^ 6)\<rfloor> = 1000000 \<and>
   \<lfloor>41 / 10 :: real\<rfloor> \<le> \<lfloor>binary64 (41 / 10)\<rfloor> \<and> \<lfloor>binary64 (41 / 10)\<rfloor> \<le> \<lceil>41 / 10 :: real\<rceil>"
proof -
  let ?p = "\<lparr>inputs = [ex_utxo ''t3'' 10000000, ex_utxo ''t4'' 25000000],
             outputs = [(''addr-C'', 25000000), (''addr-B'', 9997920)]\<rparr>"
  let ?t = "\<lparr>fromPubkey = replicate 32 5, toPubkey = ''SolDest'', lamports = 4099999999\<rparr>"
  let ?k = "\<lparr>publicKey = replicate 32 5, secretKey = replicate 32 5 @ replicate 32 (5 :: byte)\<rparr>"
  let ?d = "\<lparr>draft_output = (''addr1-dest'', 1000000),
             draft_inputs = [(\<lparr>tx_hash = ''h1'', tx_index = 0,
                               utxo_amount = [(''lovelace'', 10000000)]\<rparr>, 10000000)],
             draft_change_address = ''addr1-wallet''\<rparr>"
  note inst = amounts_floor_of_double_product
    [of "1 / 4" ex_btc_env64 "''addr-B''" ex_btc_quarter ex_sol_env64 "''SolAddr5''"
        ex_sol_body41 ex_ada_env64 "ex_ada_body 1" "41 / 10"]
  have mb: "btc_mul ex_btc_env64 = fmul" by (simp add: ex_btc_env64_def)
  have ms: "sol_mul ex_sol_env64 = fmul" by (simp add: ex_sol_env64_def)
  have ma: "ada_mul ex_ada_env64 = fmul" by (simp add: ex_ada_env64_def)
  have btc: "SignPsbt ?p ''wif-B'' \<in> set (snd (btc_send ex_btc_env64 ''addr-B'' ex_btc_quarter))"
    by (simp add: ex_btc_quarter_run64)
  from inst [THEN conjunct2, THEN conjunct1, THEN mp, OF mb, THEN spec, THEN spec, THEN mp,
      OF btc]
  obtain amount change where
    h: "btc_amount ex_btc_quarter = Some amount"
       "outputs ?p = [(btc_to ex_btc_quarter, \<lfloor>binary64 (amount * 10 ^ 8)\<rfloor>),
                      (''addr-B'', change)]"
    by blast
  have "btc_amount ex_btc_quarter = Some (1 / 4)"
    by (simp add: ex_btc_quarter_def)
  with h(1) have "amount = 1 / 4" by (metis option.inject)
  with h(2) have b: "\<lfloor>binary64 (1 / 4 * 10 ^ 8)\<rfloor> = 25000000"
    by simp
  have sol: "SendAndConfirm ?t ?k \<in> set (snd (sol_send ex_sol_env64 ''SolAddr5'' ex_sol_body41))"
    by (simp add: ex_sol_run41)
  from inst [THEN conjunct2, THEN conjunct2, THEN conjunct1, THEN mp, OF ms, THEN spec,
      THEN spec, THEN mp, OF sol]
  obtain amount' where
    h': "sol_amount ex_sol_body41 = Some amount'"
        "lamports ?t = \<lfloor>binary64 (amount' * 10 ^ 9)\<rfloor>"
    by blast
  have "sol_amount ex_sol_body41 = Some (binary64 (41 / 10))"
    by (simp add: ex_sol_body41_def)
  with h'(1) have "amount' = binary64 (41 / 10)" by (metis option.inject)
  with h'(2) have s: "\<lfloor>binary64 (binary64 (41 / 10) * 10 ^ 9)\<rfloor> = 4099999999"
    by simp
  have ada: "BuildAndSign ?d \<in> set (snd (ada_send ex_ada_env64 (ex_ada_body 1)))"
    by (simp add: ex_ada_one_run64)
  from inst [THEN conjunct2, THEN conjunct2, THEN conjunct2, THEN conjunct1, THEN mp, OF ma,
      THEN spec, THEN mp, OF ada]
  obtain amount'' where
    h'': "ada_amount (ex_ada_body 1) = Some amount''"
         "draft_output ?d = (ada_to (ex_ada_body 1), \<lfloor>binary64 (amount'' * 10 ^ 6)\<rfloor>)"
    by blast
  have "ada_amount (ex_ada_body 1) = Some 1"
    by (simp add: ex_ada_body_def)
  with h''(1) have "amount'' = 1" by (metis option.inject)
  with h''(2) have a: "\<lfloor>binary64 (1 * 10 ^ 6)\<rfloor> = 1000000"
    by simp
  have ada2: "BuildAndSign ?d \<in> set (snd (ada_send2 ex_ada_env64 (ex_ada_body 1)))"
    by (simp add: ex_ada_one_run64)
  have range: "0 \<le> (41 / 10 :: real) \<and> (41 / 10 :: real) < 2 ^ 53" by simp
  from inst [THEN conjunct2, THEN conjunct2, THEN conjunct2, THEN conjunct2, THEN conjunct2,
      THEN mp, OF range]
  have bounds: "\<lfloor>41 / 10 :: real\<rfloor> \<le> \<lfloor>binary64 (41 / 10)\<rfloor>"
    "\<lfloor>binary64 (41 / 10)\<rfloor> \<le> \<lceil>41 / 10 :: real\<rceil>"
    by blast+
  from mb ms ma btc b sol s ada ada2 a bounds show ?thesis by blast
qed

text \<open>
  The floor of the exact product is not what the routes place. The decimal amounts
  0.00015 BTC, 4.1 SOL and 4.1 ADA, held as the nearest doubles, give 14999 satoshi,
  4099999999 lamports (in the transfer the send route signs) and 4099999 lovelace, one
  unit below the floors 15000, 4100000000 and 4100000 of the exact products. And the
  double nearest to 0.3 lies below 0.3, its exact product with \<open>10^8\<close> lies below
  30000000, and the route places 30000000: against the exact product of the number it
  holds, the amount is rounded up.
\<close>

theorem amounts_floor_of_exact_product_counterexample:
  "btcToSats fmul (binary64 (15 / 100000)) = 14999 \<and>
   \<lfloor>(15 / 100000 :: real) * 10 ^ 8\<rfloor> = 15000 \<and>
   sol_amount ex_sol_body41 = Some (binary64 (41 / 10)) \<and>
   SendAndConfirm \<lparr>fromPubkey = replicate 32 5, toPubkey = ''SolDest'', lamports = 4099999999\<rparr>
       \<lparr>publicKey = replicate 32 5, secretKey = replicate 32 5 @ replicate 32 5\<rparr>
     \<in> set (snd (sol_send ex_sol_env64 ''SolAddr5'' ex_sol_body41)) \<and>
   \<lfloor>(41 / 10 :: real) * 10 ^ 9\<rfloor> = 4100000000 \<and>
   \<lfloor>fmul (binary64 (41 / 10)) (10 ^ 6)\<rfloor> = 4099999 \<and>
   \<lfloor>(41 / 10 :: real) * 10 ^ 6\<rfloor> = 4100000 \<and>
   btcToSats fmul (binary64 (3 / 10)) = 30000000 \<and>
   binary64 (3 / 10) * 10 ^ 8 < 30000000"
proof -
  have a: "btcToSats fmul (binary64 (15 / 100000)) = 14999"
    unfolding btcToSats_def by (rule floor_00015)
  have b: "\<lfloor>(15 / 100000 :: real) * 10 ^ 8\<rfloor> = 15000" by simp
  have c: "sol_amount ex_sol_body41 = Some (binary64 (41 / 10))"
    by (simp add: ex_sol_body41_def)
  have d: "SendAndConfirm
      \<lparr>fromPubkey = replicate 32 5, toPubkey = ''SolDest'', lamports = 4099999999\<rparr>
      \<lparr>publicKey = replicate 32 5, secretKey = replicate 32 5 @ replicate 32 5\<rparr>
     \<in> set (snd (sol_send ex_sol_env64 ''SolAddr5'' ex_sol_body41))"
    by (simp add: ex_sol_run41)
  have e: "\<lfloor>(41 / 10 :: real) * 10 ^ 9\<rfloor> = 4100000000" by simp
  have "(10 :: real) ^ 6 = 1000000" by simp
  then have f: "\<lfloor>fmul (binary64 (41 / 10)) (10 ^ 6)\<rfloor> = 4099999"
    by (simp only: floor_41_ada)
  have g: "\<lfloor>(41 / 10 :: real) * 10 ^ 6\<rfloor> = 4100000" by simp
  have h: "btcToSats fmul (binary64 (3 / 10)) = 30000000"
    unfolding btcToSats_def by (rule floor_03)
  from a b c d e f g h double_03_below show ?thesis by blast
qed

subsection \<open>The key codec\<close>

text \<open>
  The codec's own guard and its array branch. The guard refuses a falsy input with
  \<open>privateKey required\<close>; an input that is already an array is decoded as a secret
  key, outside any \<^verbatim>\<open>try\<close> block.
\<close>

lemma keypairFromPrivateKeyInput_guard_and_array:
  "keypairFromPrivateKeyInput lib (JStr []) = Inl PrivateKeyMissing"
  "keypairFromPrivateKeyInput lib (JArr xs) =
     (case fromSecretKey lib (uint8_from lib xs) of
        None \<Rightarrow> Inl LibraryError
      | Some kp \<Rightarrow> Inr kp)"
  by (simp_all add: keypairFromPrivateKeyInput_def)



subsection \<open>The create and import routes\<close>

text \<open>
  A wallet answered by a create route, which draws a fresh mnemonic, is answered again
  by the import route of the same router for that mnemonic and the same path
  parameters: both routes call the same derivation.
\<close>

lemma create_then_import:
  "btc_create lib generated c = Ok w \<and> btc_imported_mnemonic w \<noteq> [] \<longrightarrow>
      btc_import_mnemonic lib
        \<lparr>btc_mnemonic = btc_imported_mnemonic w,
         btc_accountIndex = btc_create_accountIndex c,
         btc_addressIndex = btc_create_addressIndex c\<rparr> = Ok w"
  "sol_create slib generated sc = Ok (m, kp) \<and> m \<noteq> [] \<longrightarrow>
      sol_import_mnemonic slib
        \<lparr>sol_mnemonic = m, sol_account = sol_create_account sc,
         sol_change = sol_create_change sc\<rparr> = Ok kp"
  "ada_create alib network generated words = Ok r \<and> imported_mnemonic r \<noteq> [] \<longrightarrow>
      ada_import alib network \<lparr>ada_mnemonic = imported_mnemonic r\<rparr> = Ok r"
  by (auto simp: btc_create_def btc_import_mnemonic_def sol_create_def
      sol_import_mnemonic_def ada_create_def ada_import_def Let_def
      split: if_splits sum.splits prod.splits)

lemma ex_btc_create_run:
  "btc_create ex_btc_lib ex_generated
     \<lparr>btc_words = None, btc_create_accountIndex = None, btc_create_addressIndex = Some 5\<rparr> =
   Ok \<lparr>btc_imported_mnemonic = ''twelve words'',
       derivationPath = ''m/84'' @ [apostrophe] @ ''/0'' @ [apostrophe] @ ''/0'' @ [apostrophe]
                          @ ''/0/5'',
       btc_imported_address = ''bc1q-wallet'', privateKeyWIF = ''wif-of-node''\<rparr>"
  by (simp add: btc_create_def ex_btc_lib_def ex_generated_def deriveFromMnemonic_def
      btc_path_def DEFAULT_PURPOSE_def DEFAULT_COIN_def buildAddressFromNode_def
      show_nat.simps Let_def)

lemma ex_sol_create_run:
  "sol_create ex_sol_lib ex_generated
     \<lparr>sol_words = Some 24, sol_create_account = Some 2, sol_create_change = None\<rparr> =
   Ok (''twenty-four words'',
       \<lparr>exp_publicKey = ''SolPublic'', exp_privateKey = ''SolSecret'',
        exp_secretKeyArray = replicate 32 3 @ replicate 32 3\<rparr>)"
  by (simp add: sol_create_def ex_sol_lib_def ex_generated_def keypairFromMnemonic_def
      exportKeypair_def Let_def)

lemma ex_ada_create_run:
  "ada_create ex_ada_lib ''mainnet'' ex_generated None =
   Ok \<lparr>imported_network = ''mainnet'', imported_mnemonic = ''twenty-four words'',
       imported_address = ''addr1-wallet''\<rparr>"
  by (simp add: ada_create_def ex_ada_lib_def ex_generated_def deriveKeysFromMnemonic_def
      derive_keys_def Let_def)

end
